theory Spec2Isabelle
  imports Main "HOL-Library.Word"
begin

section \<open>Bytes, errors and results\<close>

text \<open>
  The program is a small Go package that wraps a byte stream in NaCl's \<open>box\<close>
  (\<open>golang.org/x/crypto/nacl/box\<close>). Two files are modelled: \<open>main.go\<close>
  (\<open>SecureReader\<close>, \<open>SecureWriter\<close>, \<open>generateSharedKey\<close>) and the second source
  file (\<open>Box\<close>, \<open>Reader\<close>, \<open>Writer\<close>, \<open>Dial\<close>, \<open>handle\<close>).

  A Go \<open>[]byte\<close> is a list of 8-bit words, a \<open>[32]byte\<close> or \<open>[24]byte\<close> array a list of
  that length, a Go \<open>int\<close> that holds a length or a count is an \<open>int\<close> (lengths stay far
  below \<open>2^63\<close>).
\<close>

type_synonym byte = "8 word"
type_synonym bytes = "byte list"

text \<open>
  Go errors are values. \<open>EOF\<close> is \<open>io.EOF\<close>, \<open>NetError k\<close> stands for any other error of
  the transport, \<open>EntropyError\<close> for a failure of \<open>crypto/rand\<close>, \<open>DecryptError\<close> for
  \<open>errors.New("Decrypt: cannot decrypt the message")\<close> and \<open>errInvalidKeyPair\<close> for the
  variable of that name in \<open>main.go\<close>.
\<close>

datatype error = EOF | NetError nat | EntropyError | DecryptError | errInvalidKeyPair

text \<open>
  A Go function either returns or panics at run time (a slice expression out of range,
  a nil pointer dereference).
\<close>

datatype 'a go = Ret 'a | Panic

text \<open>
  \<open>copy(dst, src)\<close> overwrites the first \<open>min (len dst) (len src)\<close> elements of \<open>dst\<close>
  and returns that number.
\<close>

definition go_copy :: "bytes \<Rightarrow> bytes \<Rightarrow> bytes \<times> nat" where
  "go_copy dst src =
     (let n = min (length dst) (length src) in (take n src @ drop n dst, n))"

text \<open>
  \<open>bytes.Trim(s, "\x00")\<close>: \<open>s\<close> without its trailing and its leading zero bytes (the
  library trims the right end, then the left end).
\<close>

definition trimRightByte0 :: "bytes \<Rightarrow> bytes" where
  "trimRightByte0 s = rev (dropWhile (\<lambda>b. b = 0) (rev s))"

definition trimLeftByte0 :: "bytes \<Rightarrow> bytes" where
  "trimLeftByte0 s = dropWhile (\<lambda>b. b = 0) s"

definition bytes_Trim0 :: "bytes \<Rightarrow> bytes" where
  "bytes_Trim0 s = trimLeftByte0 (trimRightByte0 s)"

section \<open>The collaborators: entropy and the NaCl library\<close>

text \<open>
  \<open>crypto/rand\<close> is a pool of bytes still to be drawn. \<open>rand.Read(b)\<close> fills \<open>b\<close>
  from the pool and returns \<open>len(b)\<close>, or fails with what it could read when the
  source gives out. The result is the filled buffer, the count, the error and the pool
  that is left.
\<close>

type_synonym entropy = bytes

definition rand_Read :: "nat \<Rightarrow> entropy \<Rightarrow> bytes \<times> int \<times> error option \<times> entropy" where
  "rand_Read k r =
     (if k \<le> length r then (take k r, int k, None, drop k r)
      else (r @ replicate (k - length r) 0, int (length r), Some EntropyError, []))"

text \<open>
  The cryptographic primitives are not part of the repository: they are a parameter.
  \<open>scalarBaseMult\<close> gives the public key of a private key, \<open>Precompute\<close> the shared key
  of a peer's public key and a private key (in the argument order of
  \<open>box.Precompute(&shared, pub, priv)\<close>), \<open>secretbox_Seal m nonce key\<close> the
  authenticated ciphertext of \<open>m\<close> and \<open>secretbox_Open box nonce key\<close> the message of a
  ciphertext that authenticates.
\<close>

record crypto =
  scalarBaseMult :: "bytes \<Rightarrow> bytes"
  Precompute :: "bytes \<Rightarrow> bytes \<Rightarrow> bytes"
  secretbox_Seal :: "bytes \<Rightarrow> bytes \<Rightarrow> bytes \<Rightarrow> bytes"
  secretbox_Open :: "bytes \<Rightarrow> bytes \<Rightarrow> bytes \<Rightarrow> bytes option"

text \<open>
  The entry points of package \<open>box\<close> the program calls, as the library documents them:
  \<open>Seal\<close> appends the ciphertext to \<open>out\<close>; \<open>Seal\<close> and \<open>Open\<close> are
  \<open>SealAfterPrecomputation\<close> and \<open>OpenAfterPrecomputation\<close> on the key of \<open>Precompute\<close>;
  \<open>GenerateKey\<close> draws 32 bytes for the private key. The program always opens with
  \<open>out = nil\<close>.
\<close>

definition box_SealAfterPrecomputation :: "crypto \<Rightarrow> bytes \<Rightarrow> bytes \<Rightarrow> bytes \<Rightarrow> bytes \<Rightarrow> bytes" where
  "box_SealAfterPrecomputation c out m nonce sharedKey = out @ secretbox_Seal c m nonce sharedKey"

definition box_OpenAfterPrecomputation :: "crypto \<Rightarrow> bytes \<Rightarrow> bytes \<Rightarrow> bytes \<Rightarrow> bytes option" where
  "box_OpenAfterPrecomputation c bx nonce sharedKey = secretbox_Open c bx nonce sharedKey"

definition box_Seal :: "crypto \<Rightarrow> bytes \<Rightarrow> bytes \<Rightarrow> bytes \<Rightarrow> bytes \<Rightarrow> bytes \<Rightarrow> bytes" where
  "box_Seal c out m nonce peersPublicKey privKey =
     box_SealAfterPrecomputation c out m nonce (Precompute c peersPublicKey privKey)"

definition box_Open :: "crypto \<Rightarrow> bytes \<Rightarrow> bytes \<Rightarrow> bytes \<Rightarrow> bytes \<Rightarrow> bytes option" where
  "box_Open c bx nonce peersPublicKey privKey =
     box_OpenAfterPrecomputation c bx nonce (Precompute c peersPublicKey privKey)"

definition box_GenerateKey :: "crypto \<Rightarrow> entropy \<Rightarrow> (error + bytes \<times> bytes) \<times> entropy" where
  "box_GenerateKey c r =
     (let (priv, n, err, r') = rand_Read 32 r in
      case err of
        Some e \<Rightarrow> (Inl e, r')
      | None \<Rightarrow> (Inr (scalarBaseMult c priv, priv), r'))"

text \<open>
  What the program relies on from the library: a key pair is valid when the public key
  is the one of the private key; two valid pairs agree on the shared key; opening a
  sealed message with the nonce and key it was sealed with returns it; a ciphertext is
  16 bytes (\<open>box.Overhead\<close>) longer than its message.
\<close>

definition valid_keypair :: "crypto \<Rightarrow> bytes \<Rightarrow> bytes \<Rightarrow> bool" where
  "valid_keypair c priv pub = (pub = scalarBaseMult c priv)"

definition nacl_contract :: "crypto \<Rightarrow> bool" where
  "nacl_contract c =
     ((\<forall>a b. Precompute c (scalarBaseMult c b) a = Precompute c (scalarBaseMult c a) b) \<and>
      (\<forall>m nonce k. secretbox_Open c (secretbox_Seal c m nonce k) nonce k = Some m) \<and>
      (\<forall>m nonce k. length (secretbox_Seal c m nonce k) = length m + 16))"

text \<open>
  A small instance of the interface, for evaluating the model on concrete inputs. It has
  the library's lengths and satisfies \<open>nacl_contract\<close>; it hides nothing. The tag is a
  checksum over message, nonce and key followed by 15 bytes of the key's checksum.
\<close>

definition toy_tag :: "bytes \<Rightarrow> bytes \<Rightarrow> bytes \<Rightarrow> bytes" where
  "toy_tag m nonce k =
     (sum_list m + sum_list nonce + sum_list k + of_nat (length m)) # replicate 15 (sum_list k)"

definition toy_Seal :: "bytes \<Rightarrow> bytes \<Rightarrow> bytes \<Rightarrow> bytes" where
  "toy_Seal m nonce k = toy_tag m nonce k @ map (\<lambda>b. b + sum_list (nonce @ k)) m"

definition toy_Open :: "bytes \<Rightarrow> bytes \<Rightarrow> bytes \<Rightarrow> bytes option" where
  "toy_Open bx nonce k =
     (if length bx < 16 then None
      else let m = map (\<lambda>b. b - sum_list (nonce @ k)) (drop 16 bx) in
           if take 16 bx = toy_tag m nonce k then Some m else None)"

definition toy :: crypto where
  "toy = \<lparr> scalarBaseMult = map (\<lambda>b. 9 * b),
           Precompute = (\<lambda>pub priv. map2 (\<lambda>x y. x * y) pub priv),
           secretbox_Seal = toy_Seal,
           secretbox_Open = toy_Open \<rparr>"

section \<open>The second source file: Box\<close>

text \<open>
  \<open>Box\<close> holds three pointers to 32-byte arrays; \<open>None\<close> is \<open>nil\<close>. \<open>NewBox\<close> leaves the
  peer's key \<open>nil\<close>.
\<close>

record Box =
  PublicKey :: "bytes option"
  PeersPublicKey :: "bytes option"
  privateKey :: "bytes option"

definition NewBoxKeys :: "bytes option \<Rightarrow> bytes option \<Rightarrow> bytes option \<Rightarrow> Box" where
  "NewBoxKeys pub peers priv = \<lparr> PublicKey = pub, PeersPublicKey = peers, privateKey = priv \<rparr>"

definition NewBox :: "crypto \<Rightarrow> entropy \<Rightarrow> (error + Box) \<times> entropy" where
  "NewBox c r =
     (case box_GenerateKey c r of
        (Inl e, r') \<Rightarrow> (Inl e, r')
      | (Inr (pub, priv), r') \<Rightarrow> (Inr (NewBoxKeys (Some pub) None (Some priv)), r'))"

text \<open>
  \<open>Encrypt\<close> draws the nonce, then seals with \<open>out = nonce[:]\<close>, so the frame is the
  nonce followed by the ciphertext. Dereferencing a \<open>nil\<close> key inside \<open>box.Seal\<close> panics.
\<close>

definition Encrypt :: "crypto \<Rightarrow> Box \<Rightarrow> bytes \<Rightarrow> entropy \<Rightarrow> (error + bytes) go \<times> entropy" where
  "Encrypt c b m r =
     (let (nonce, n, err, r') = rand_Read 24 r in
      case err of
        Some e \<Rightarrow> (Ret (Inl e), r')
      | None \<Rightarrow>
          (case (PeersPublicKey b, privateKey b) of
             (Some pk, Some sk) \<Rightarrow> (Ret (Inr (box_Seal c nonce m nonce pk sk)), r')
           | _ \<Rightarrow> (Panic, r')))"

text \<open>
  \<open>Decrypt\<close> copies the first bytes of \<open>em\<close> into a zeroed 24-byte nonce, then slices
  \<open>em[24:]\<close>, which panics when \<open>em\<close> has fewer than 24 bytes.
\<close>

definition Decrypt :: "crypto \<Rightarrow> Box \<Rightarrow> bytes \<Rightarrow> (error + bytes) go" where
  "Decrypt c b em =
     (let nonce = fst (go_copy (replicate 24 0) em) in
      if length em < 24 then Panic
      else case (PeersPublicKey b, privateKey b) of
             (Some pk, Some sk) \<Rightarrow>
               (case box_Open c (drop 24 em) nonce pk sk of
                  Some dm \<Rightarrow> Ret (Inr dm)
                | None \<Rightarrow> Ret (Inl DecryptError))
           | _ \<Rightarrow> Panic)"

section \<open>The byte stream\<close>

text \<open>
  \<open>net.Conn\<close> (and the \<open>io.Reader\<close> or \<open>io.Writer\<close> under an adapter) is a scripted
  stream that honours the contracts of \<open>io.Reader\<close> and \<open>io.Writer\<close>. \<open>inbox\<close> lists what
  the peer delivers: each entry is a chunk of bytes and the error reported with its
  last byte, if any; an empty inbox is end of stream. A read fills the caller's buffer
  from the first chunk (all of the buffer when the chunk is longer, its first bytes
  otherwise) and leaves what did not fit for the next read. \<open>wscript\<close> lists
  the outcomes of the coming writes (\<open>None\<close>: the whole slice is accepted;
  \<open>Some (k, e)\<close>: at most \<open>k\<close> bytes, then error \<open>e\<close>); \<open>outbox\<close> collects what was
  written, one entry per write.
\<close>

record conn =
  inbox :: "(bytes \<times> error option) list"
  wscript :: "(nat \<times> error) option list"
  outbox :: "bytes list"

definition conn_Read :: "conn \<Rightarrow> bytes \<Rightarrow> int \<times> error option \<times> bytes \<times> conn" where
  "conn_Read cn p =
     (case inbox cn of
        [] \<Rightarrow> (0, Some EOF, p, cn)
      | (d, e) # rest \<Rightarrow>
          (if length p < length d
           then (int (length p), None, take (length p) d,
                 cn\<lparr>inbox := (drop (length p) d, e) # rest\<rparr>)
           else (int (length d), e, d @ drop (length d) p, cn\<lparr>inbox := rest\<rparr>)))"

definition conn_Write :: "conn \<Rightarrow> bytes \<Rightarrow> int \<times> error option \<times> conn" where
  "conn_Write cn b =
     (case wscript cn of
        [] \<Rightarrow> (int (length b), None, cn\<lparr>outbox := outbox cn @ [b]\<rparr>)
      | None # ws \<Rightarrow> (int (length b), None, cn\<lparr>wscript := ws, outbox := outbox cn @ [b]\<rparr>)
      | Some (k, e) # ws \<Rightarrow>
          (int (min k (length b)), Some e, cn\<lparr>wscript := ws, outbox := outbox cn @ [take k b]\<rparr>))"

section \<open>The second source file: Reader and Writer\<close>

text \<open>
  A \<open>Reader\<close> or \<open>Writer\<close> is a box and a reference to its stream; the stream's state is
  passed to each call and returned. \<open>Read\<close> returns the count, the error, the caller's
  buffer as the call leaves it and the stream.
\<close>

record Reader =
  rd_bx :: Box

record Writer =
  wr_bx :: Box

definition NewReader :: "Box \<Rightarrow> Reader" where
  "NewReader b = \<lparr> rd_bx = b \<rparr>"

definition NewWriter :: "Box \<Rightarrow> Writer" where
  "NewWriter b = \<lparr> wr_bx = b \<rparr>"

definition Reader_Read ::
  "crypto \<Rightarrow> Reader \<Rightarrow> conn \<Rightarrow> bytes \<Rightarrow> (int \<times> error option \<times> bytes \<times> conn) go" where
  "Reader_Read c r cn p =
     (let (n, err, p1, cn1) = conn_Read cn p in
      case err of
        Some e \<Rightarrow> Ret (n, Some e, p1, cn1)
      | None \<Rightarrow>
          (case Decrypt c (rd_bx r) (take (nat n) p1) of
             Panic \<Rightarrow> Panic
           | Ret (Inl e) \<Rightarrow> Ret (n, Some e, p1, cn1)
           | Ret (Inr dm) \<Rightarrow> (let (p2, k) = go_copy p1 dm in Ret (int k, None, p2, cn1))))"

definition Writer_Write ::
  "crypto \<Rightarrow> Writer \<Rightarrow> entropy \<Rightarrow> conn \<Rightarrow> bytes \<Rightarrow> (int \<times> error option \<times> entropy \<times> conn) go" where
  "Writer_Write c w r cn p =
     (case Encrypt c (wr_bx w) p r of
        (Panic, r1) \<Rightarrow> Panic
      | (Ret (Inl e), r1) \<Rightarrow> Ret (0, Some e, r1, cn)
      | (Ret (Inr em), r1) \<Rightarrow>
          (let (n, err, cn1) = conn_Write cn em in
           case err of
             Some e \<Rightarrow> Ret (n, Some e, r1, cn1)
           | None \<Rightarrow> Ret (n, None, r1, cn1)))"

section \<open>The second source file: Dial and handle\<close>

record Client =
  cl_rd :: Reader
  cl_wr :: Writer

record Server =
  sv_rd :: Reader
  sv_wr :: Writer

definition NewClient :: "Reader \<Rightarrow> Writer \<Rightarrow> Client" where
  "NewClient r w = \<lparr> cl_rd = r, cl_wr = w \<rparr>"

definition NewServer :: "Reader \<Rightarrow> Writer \<Rightarrow> Server" where
  "NewServer r w = \<lparr> sv_rd = r, sv_wr = w \<rparr>"

definition MAX_BUFFER :: nat where
  "MAX_BUFFER = 1024"

text \<open>
  \<open>Dial\<close>: \<open>net_Dial\<close> is the network (\<open>net.Dial("tcp", addr)\<close>). The error of the key
  read is assigned and then overwritten by the write's, as in the source. The result is
  the client with its connection, or the error.
\<close>

definition Dial ::
  "crypto \<Rightarrow> (string \<Rightarrow> error + conn) \<Rightarrow> entropy \<Rightarrow> string \<Rightarrow> (error + Client \<times> conn) go \<times> entropy" where
  "Dial c net_Dial r addr =
     (case net_Dial addr of
        Inl e \<Rightarrow> (Ret (Inl e), r)
      | Inr cn \<Rightarrow>
          (case NewBox c r of
             (Inl e, r1) \<Rightarrow> (Ret (Inl e), r1)
           | (Inr bx, r1) \<Rightarrow>
               (let key = replicate 32 0;
                    (n, err, key1, cn1) = conn_Read cn key;
                    peersKey = fst (go_copy (replicate 32 0) (take (nat n) key1));
                    bx1 = bx\<lparr>PeersPublicKey := Some peersKey\<rparr>
                in case PublicKey bx1 of
                     None \<Rightarrow> (Panic, r1)
                   | Some pub \<Rightarrow>
                       (let (n2, err2, cn2) = conn_Write cn1 pub in
                        case err2 of
                          Some e \<Rightarrow> (Ret (Inl e), r1)
                        | None \<Rightarrow>
                            (Ret (Inr (NewClient (NewReader bx1) (NewWriter bx1), cn2)), r1)))))"

text \<open>
  \<open>handle\<close>, first part (up to \<open>NewServer\<close>): the key exchange of the responder. The
  result is the server, or the error that is printed before \<open>handle\<close> returns.
\<close>

definition handle_handshake ::
  "crypto \<Rightarrow> entropy \<Rightarrow> conn \<Rightarrow> (error + Server) go \<times> entropy \<times> conn" where
  "handle_handshake c r client =
     (case NewBox c r of
        (Inl e, r1) \<Rightarrow> (Ret (Inl e), r1, client)
      | (Inr bx, r1) \<Rightarrow>
          (case PublicKey bx of
             None \<Rightarrow> (Panic, r1, client)
           | Some pub \<Rightarrow>
               (let (n, err, cn1) = conn_Write client pub in
                case err of
                  Some e \<Rightarrow> (Ret (Inl e), r1, cn1)
                | None \<Rightarrow>
                    (let key = replicate 32 0;
                         (n2, err2, key1, cn2) = conn_Read cn1 key in
                     case err2 of
                       Some e \<Rightarrow> (Ret (Inl e), r1, cn2)
                     | None \<Rightarrow>
                         (let peersKey = fst (go_copy (replicate 32 0) (take (nat n2) key1));
                              bx1 = bx\<lparr>PeersPublicKey := Some peersKey\<rparr>
                          in (Ret (Inr (NewServer (NewReader bx1) (NewWriter bx1))), r1, cn2))))))"

text \<open>
  \<open>handle\<close>, second part: the echo loop. Each round reads into a fresh buffer of
  \<open>MAX_BUFFER\<close> zero bytes. The result lists what the loop printed (nothing on
  \<open>io.EOF\<close>), with the entropy and the connection it leaves.
\<close>

definition inbox_size :: "conn \<Rightarrow> nat" where
  "inbox_size cn = sum_list (map (\<lambda>(d, e). Suc (length d)) (inbox cn))"

function handle_loop ::
  "crypto \<Rightarrow> Server \<Rightarrow> entropy \<Rightarrow> conn \<Rightarrow> (error list \<times> entropy \<times> conn) go" where
  "handle_loop c s r cn =
     (case Reader_Read c (sv_rd s) cn (replicate MAX_BUFFER 0) of
        Panic \<Rightarrow> Panic
      | Ret (n, Some err, p1, cn1) \<Rightarrow> (if err = EOF then Ret ([], r, cn1) else Ret ([err], r, cn1))
      | Ret (n, None, p1, cn1) \<Rightarrow>
          (case Writer_Write c (sv_wr s) r cn1 (take (nat n) p1) of
             Panic \<Rightarrow> Panic
           | Ret (n2, Some err, r1, cn2) \<Rightarrow> Ret ([err], r1, cn2)
           | Ret (n2, None, r1, cn2) \<Rightarrow> handle_loop c s r1 cn2))"
  by pat_completeness auto

text \<open>\<open>handle\<close>: the key exchange, then the loop.\<close>

definition handle :: "crypto \<Rightarrow> entropy \<Rightarrow> conn \<Rightarrow> (error list \<times> entropy \<times> conn) go" where
  "handle c r client =
     (case handle_handshake c r client of
        (Panic, r1, cn) \<Rightarrow> Panic
      | (Ret (Inl e), r1, cn) \<Rightarrow> Ret ([e], r1, cn)
      | (Ret (Inr s), r1, cn) \<Rightarrow> handle_loop c s r1 cn)"

section \<open>main.go: SecureReader and SecureWriter\<close>

definition generateSharedKey :: "crypto \<Rightarrow> bytes \<Rightarrow> bytes \<Rightarrow> bytes" where
  "generateSharedKey c priv pub = Precompute c pub priv"

text \<open>
  \<open>SecureReader\<close> and \<open>SecureWriter\<close> hold the precomputed key and a reference to the
  stream, whose state is passed along. \<open>Read\<close> trims the whole buffer \<open>p\<close>, not \<open>p[:n]\<close>;
  the slice expression \<open>em[24:]\<close> panics when fewer than 24 bytes are left.
\<close>

record SecureReader =
  sr_key :: bytes

record SecureWriter =
  sw_key :: bytes

definition NewSecureReader :: "crypto \<Rightarrow> bytes \<Rightarrow> bytes \<Rightarrow> SecureReader" where
  "NewSecureReader c priv pub = \<lparr> sr_key = generateSharedKey c priv pub \<rparr>"

definition NewSecureWriter :: "crypto \<Rightarrow> bytes \<Rightarrow> bytes \<Rightarrow> SecureWriter" where
  "NewSecureWriter c priv pub = \<lparr> sw_key = generateSharedKey c priv pub \<rparr>"

definition SecureReader_Read ::
  "crypto \<Rightarrow> SecureReader \<Rightarrow> conn \<Rightarrow> bytes \<Rightarrow> (int \<times> error option \<times> bytes \<times> conn) go" where
  "SecureReader_Read c sr cn p =
     (let (n, err, p1, cn1) = conn_Read cn p in
      case err of
        Some e \<Rightarrow> Ret (n, Some e, p1, cn1)
      | None \<Rightarrow>
          (let em = bytes_Trim0 p1;
               nonce = fst (go_copy (replicate 24 0) em)
           in if length em < 24 then Panic
              else case box_OpenAfterPrecomputation c (drop 24 em) nonce (sr_key sr) of
                     Some dm \<Rightarrow> (let (p2, k) = go_copy p1 dm in Ret (int k, None, p2, cn1))
                   | None \<Rightarrow> Ret (- 1, Some errInvalidKeyPair, p1, cn1)))"

definition SecureWriter_Write ::
  "crypto \<Rightarrow> SecureWriter \<Rightarrow> entropy \<Rightarrow> conn \<Rightarrow> bytes \<Rightarrow> int \<times> error option \<times> entropy \<times> conn" where
  "SecureWriter_Write c sw r cn p =
     (let (nonce, n, err, r1) = rand_Read 24 r in
      case err of
        Some e \<Rightarrow> (n, Some e, r1, cn)
      | None \<Rightarrow>
          (let em = box_SealAfterPrecomputation c nonce p nonce (sw_key sw);
               (n2, err2, cn1) = conn_Write cn em
           in case err2 of
                Some e \<Rightarrow> (n2, Some e, r1, cn1)
              | None \<Rightarrow> (int (length em), None, r1, cn1)))"

section \<open>Facts about the stream, the loop and the small instance\<close>

lemma go_copy_nonce: "24 \<le> length em \<Longrightarrow> fst (go_copy (replicate 24 0) em) = take 24 em"
  by (simp add: go_copy_def)

lemma rand_Read_ok:
  "rand_Read k r = (b, n, None, r') \<Longrightarrow> b = take k r \<and> length b = k \<and> r' = drop k r \<and> k \<le> length r"
  by (auto simp: rand_Read_def split: if_splits)

lemma conn_Read_inbox:
  assumes "conn_Read cn p = (n, None, p1, cn1)" and "p \<noteq> []"
  shows "inbox_size cn1 < inbox_size cn"
proof (cases "inbox cn")
  case Nil
  then show ?thesis using assms by (simp add: conn_Read_def)
next
  case (Cons x rest)
  obtain d e where x: "x = (d, e)" by (cases x)
  obtain k where pos: "length p = Suc k" using assms(2) by (cases p) auto
  show ?thesis
  proof (cases "length p < length d")
    case True
    then have "cn1 = cn\<lparr>inbox := (drop (length p) d, e) # rest\<rparr>"
      using assms(1) Cons x by (simp add: conn_Read_def)
    then show ?thesis using True pos Cons x by (simp add: inbox_size_def)
  next
    case False
    then have "cn1 = cn\<lparr>inbox := rest\<rparr>"
      using assms(1) Cons x by (simp add: conn_Read_def)
    then show ?thesis using Cons x by (simp add: inbox_size_def)
  qed
qed

lemma conn_Write_inbox: "conn_Write cn b = (n, err, cn1) \<Longrightarrow> inbox cn1 = inbox cn"
  by (auto simp: conn_Write_def split: list.splits option.splits)

lemma Reader_Read_conn:
  "Reader_Read c rd cn p = Ret (n, err, p1, cn1) \<Longrightarrow> cn1 = snd (snd (snd (conn_Read cn p)))"
  by (auto simp: Reader_Read_def Let_def split: prod.splits option.splits go.splits sum.splits)

lemma Reader_Read_ok_conn:
  "Reader_Read c rd cn p = Ret (n, None, p1, cn1) \<Longrightarrow> fst (snd (conn_Read cn p)) = None"
  by (auto simp: Reader_Read_def Let_def split: prod.splits option.splits go.splits sum.splits)

lemma Writer_Write_inbox:
  "Writer_Write c wr r cn p = Ret (n, err, r1, cn1) \<Longrightarrow> inbox cn1 = inbox cn"
  by (auto simp: Writer_Write_def Let_def dest: conn_Write_inbox
      split: prod.splits option.splits go.splits sum.splits)

text \<open>
  The echo loop terminates: a round that goes on has read without error from a non-empty
  buffer, which takes bytes or a whole chunk out of the inbox, and its write leaves the
  inbox alone.
\<close>

lemma handle_loop_decreases:
  assumes "Reader_Read c rd cn (replicate MAX_BUFFER 0) = Ret (n, None, p1, cn1)"
    and "Writer_Write c wr r cn1 q = Ret (n2, e2, r1, cn2)"
  shows "inbox_size cn2 < inbox_size cn"
proof -
  obtain m e q' cn' where rd: "conn_Read cn (replicate MAX_BUFFER 0) = (m, e, q', cn')"
    by (cases "conn_Read cn (replicate MAX_BUFFER 0)") auto
  from Reader_Read_conn [OF assms(1)] Reader_Read_ok_conn [OF assms(1)] rd
  have "cn1 = cn'" and "e = None" by simp_all
  with rd have "inbox_size cn1 < inbox_size cn"
    using conn_Read_inbox [of cn "replicate MAX_BUFFER 0" m q' cn'] by (simp add: MAX_BUFFER_def)
  moreover from Writer_Write_inbox [OF assms(2)] have "inbox_size cn2 = inbox_size cn1"
    by (simp add: inbox_size_def)
  ultimately show ?thesis by simp
qed

termination handle_loop
  by (relation "measure (\<lambda>(c, s, r, cn). inbox_size cn)") (auto dest: handle_loop_decreases)

text \<open>The small instance keeps the contract of the library.\<close>

lemma toy_dh: "map2 (\<lambda>x y. x * y) (map (\<lambda>b. 9 * b) bs) (as :: bytes)
             = map2 (\<lambda>x y. x * y) (map (\<lambda>b. 9 * b) as) bs"
proof (induction as arbitrary: bs)
  case Nil
  then show ?case by simp
next
  case (Cons a as)
  then show ?case by (cases bs) (simp_all add: mult_ac)
qed

lemma length_toy_tag: "length (toy_tag m nonce k) = 16"
  by (simp add: toy_tag_def)

lemma toy_roundtrip: "toy_Open (toy_Seal m nonce k) nonce k = Some m"
  by (simp add: toy_Open_def toy_Seal_def length_toy_tag o_def)

lemma toy_contract: "nacl_contract toy"
  unfolding nacl_contract_def toy_def
  by (simp add: toy_dh toy_roundtrip) (simp add: toy_Seal_def length_toy_tag)

section \<open>The frame codec\<close>

lemma Encrypt_frame:
  "24 \<le> length r \<Longrightarrow>
   Encrypt c \<lparr>PublicKey = pub, PeersPublicKey = Some pk, privateKey = Some sk\<rparr> m r =
     (Ret (Inr (take 24 r @ secretbox_Seal c m (take 24 r) (Precompute c pk sk))), drop 24 r)"
  by (simp add: Encrypt_def rand_Read_def box_Seal_def box_SealAfterPrecomputation_def)

lemma Decrypt_frame:
  "length nonce = 24 \<Longrightarrow>
   Decrypt c \<lparr>PublicKey = pub, PeersPublicKey = Some pk, privateKey = Some sk\<rparr> (nonce @ ct) =
     (case secretbox_Open c ct nonce (Precompute c pk sk) of
        Some dm \<Rightarrow> Ret (Inr dm) | None \<Rightarrow> Ret (Inl DecryptError))"
  by (simp add: Decrypt_def go_copy_def box_Open_def box_OpenAfterPrecomputation_def)

text \<open>
  Claim C1. For every plaintext \<open>p\<close> (the empty one too) and all valid key pairs
  \<open>(A_priv, A_pub)\<close> and \<open>(B_priv, B_pub)\<close>: both sides derive the same shared key, and
  the frame that \<open>Encrypt\<close> produces under \<open>(A_priv, B_pub)\<close> is decrypted to exactly \<open>p\<close>
  under \<open>(B_priv, A_pub)\<close>, by \<open>Decrypt\<close> and by opening with the shared key of
  \<open>generateSharedKey\<close>. The library is assumed to keep its contract and the entropy
  source to deliver the 24 bytes of the nonce.
\<close>

theorem Open_Seal_roundtrip:
  assumes "nacl_contract c"
    and "valid_keypair c A_priv A_pub" and "valid_keypair c B_priv B_pub"
    and "24 \<le> length r"
  shows "generateSharedKey c A_priv B_pub = generateSharedKey c B_priv A_pub \<and>
         (\<exists>frame.
            fst (Encrypt c (NewBoxKeys (Some A_pub) (Some B_pub) (Some A_priv)) p r) = Ret (Inr frame) \<and>
            Decrypt c (NewBoxKeys (Some B_pub) (Some A_pub) (Some B_priv)) frame = Ret (Inr p) \<and>
            box_OpenAfterPrecomputation c (drop 24 frame) (take 24 frame)
              (generateSharedKey c B_priv A_pub) = Some p)"
proof -
  from assms(1) have dh: "\<And>a b. Precompute c (scalarBaseMult c b) a = Precompute c (scalarBaseMult c a) b"
    and rt: "\<And>m nonce k. secretbox_Open c (secretbox_Seal c m nonce k) nonce k = Some m"
    by (simp_all add: nacl_contract_def)
  have key: "Precompute c B_pub A_priv = Precompute c A_pub B_priv"
    using assms(2,3) dh by (simp add: valid_keypair_def)
  let ?nonce = "take 24 r"
  let ?frame = "?nonce @ secretbox_Seal c p ?nonce (Precompute c B_pub A_priv)"
  have len: "length ?nonce = 24" using assms(4) by simp
  have enc: "fst (Encrypt c (NewBoxKeys (Some A_pub) (Some B_pub) (Some A_priv)) p r) = Ret (Inr ?frame)"
    using assms(4) by (simp add: NewBoxKeys_def Encrypt_frame)
  have dec: "Decrypt c (NewBoxKeys (Some B_pub) (Some A_pub) (Some B_priv)) ?frame = Ret (Inr p)"
    unfolding NewBoxKeys_def Decrypt_frame [OF len] by (simp add: key [symmetric] rt)
  have opn: "box_OpenAfterPrecomputation c (drop 24 ?frame) (take 24 ?frame)
      (generateSharedKey c B_priv A_pub) = Some p"
    using len by (simp add: box_OpenAfterPrecomputation_def generateSharedKey_def key [symmetric] rt)
  show ?thesis using enc dec opn key by (auto simp: generateSharedKey_def)
qed

theorem Open_Seal_roundtrip_witness:
  "nacl_contract toy \<and>
   valid_keypair toy (replicate 32 2) (replicate 32 18) \<and>
   valid_keypair toy (replicate 32 3) (replicate 32 27) \<and>
   (\<exists>frame.
      fst (Encrypt toy (NewBoxKeys (Some (replicate 32 18)) (Some (replicate 32 27)) (Some (replicate 32 2)))
             [104, 101, 108, 108, 111] (replicate 24 7)) = Ret (Inr frame) \<and>
      Decrypt toy (NewBoxKeys (Some (replicate 32 27)) (Some (replicate 32 18)) (Some (replicate 32 3))) frame
        = Ret (Inr [104, 101, 108, 108, 111]))"
  using toy_contract
    Open_Seal_roundtrip [OF toy_contract, of "replicate 32 2" "replicate 32 18" "replicate 32 3"
      "replicate 32 27" "replicate 24 7" "[104, 101, 108, 108, 111]"]
  by (auto simp: valid_keypair_def toy_def)

section \<open>What the writers return\<close>

lemma conn_Write_ok:
  "conn_Write cn b = (n, None, cn1) \<Longrightarrow> n = int (length b) \<and> outbox cn1 = outbox cn @ [b]"
  by (auto simp: conn_Write_def split: list.splits option.splits)

lemma Encrypt_ok:
  "Encrypt c b m r = (Ret (Inr em), r1) \<Longrightarrow>
     24 \<le> length r \<and> r1 = drop 24 r \<and>
     (\<exists>k. em = take 24 r @ secretbox_Seal c m (take 24 r) k)"
  by (auto simp: Encrypt_def rand_Read_def box_Seal_def box_SealAfterPrecomputation_def
      split: if_splits option.splits)

lemma SecureWriter_Write_ok:
  "SecureWriter_Write c sw r cn p = (n, None, r1, cn1) \<Longrightarrow>
     24 \<le> length r \<and> r1 = drop 24 r \<and>
     n = int (length (take 24 r @ secretbox_Seal c p (take 24 r) (sw_key sw))) \<and>
     outbox cn1 = outbox cn @ [take 24 r @ secretbox_Seal c p (take 24 r) (sw_key sw)]"
  by (auto simp: SecureWriter_Write_def rand_Read_def box_SealAfterPrecomputation_def Let_def
      dest: conn_Write_ok split: if_splits option.splits prod.splits)

lemma Writer_Write_ok:
  "Writer_Write c w r cn p = Ret (n, None, r1, cn1) \<Longrightarrow>
     \<exists>em. fst (Encrypt c (wr_bx w) p r) = Ret (Inr em) \<and> n = int (length em) \<and>
          outbox cn1 = outbox cn @ [em]"
  by (auto simp: Writer_Write_def Let_def dest: conn_Write_ok
      split: if_splits option.splits prod.splits go.splits sum.splits)

text \<open>
  Claim C2, as amended. The claim says a successful \<open>Write(p)\<close> returns \<open>len(p)\<close>. The
  code returns the length of the frame instead, as its comments announce
  (\<open>n == len(em)\<close>): when the underlying write accepts the whole frame, \<open>Writer.Write\<close>
  returns the count of the underlying write and \<open>SecureWriter.Write\<close> returns \<open>len(em)\<close>,
  and both are the on-wire length of the frame, \<open>len(p) + 40\<close> (24 bytes of nonce, 16 of
  overhead).
\<close>

theorem Write_returns_frame_length:
  assumes "nacl_contract c"
  shows "(Writer_Write c w r cn p = Ret (n, None, ra, cna) \<longrightarrow>
            n = int (length (last (outbox cna))) \<and> n = int (length p) + 40) \<and>
         (SecureWriter_Write c sw r cn p = (nb, None, rb, cnb) \<longrightarrow>
            nb = int (length (last (outbox cnb))) \<and> nb = int (length p) + 40)"
proof -
  from assms have len: "\<And>m nonce k. length (secretbox_Seal c m nonce k) = length m + 16"
    by (simp add: nacl_contract_def)
  show ?thesis
  proof (intro conjI impI)
    assume w: "Writer_Write c w r cn p = Ret (n, None, ra, cna)"
    from Writer_Write_ok [OF w] obtain em where
      em: "fst (Encrypt c (wr_bx w) p r) = Ret (Inr em)" "n = int (length em)" "outbox cna = outbox cn @ [em]"
      by blast
    from em(3) em(2) show "n = int (length (last (outbox cna)))" by simp
    from em(1) have "Encrypt c (wr_bx w) p r = (Ret (Inr em), snd (Encrypt c (wr_bx w) p r))"
      by (cases "Encrypt c (wr_bx w) p r") simp
    from Encrypt_ok [OF this] em(2) len show "n = int (length p) + 40" by auto
  next
    assume s: "SecureWriter_Write c sw r cn p = (nb, None, rb, cnb)"
    from SecureWriter_Write_ok [OF s] show "nb = int (length (last (outbox cnb)))" by simp
    from SecureWriter_Write_ok [OF s] len show "nb = int (length p) + 40" by simp
  qed
qed

theorem Write_returns_frame_length_witness:
  "nacl_contract toy \<and>
   Writer_Write toy (NewWriter (NewBoxKeys (Some (replicate 32 18)) (Some (replicate 32 27)) (Some (replicate 32 2))))
     (replicate 24 7) \<lparr>inbox = [], wscript = [], outbox = []\<rparr> [104, 101, 108, 108, 111]
   = Ret (45, None, [], \<lparr>inbox = [], wscript = [], outbox =
       [replicate 24 7 @ toy_Seal [104, 101, 108, 108, 111] (replicate 24 7) (replicate 32 54)]\<rparr>) \<and>
   SecureWriter_Write toy (NewSecureWriter toy (replicate 32 2) (replicate 32 27))
     (replicate 24 7) \<lparr>inbox = [], wscript = [], outbox = []\<rparr> [104, 101, 108, 108, 111]
   = (45, None, [], \<lparr>inbox = [], wscript = [], outbox =
       [replicate 24 7 @ toy_Seal [104, 101, 108, 108, 111] (replicate 24 7) (replicate 32 54)]\<rparr>) \<and>
   (45 :: int) = int (length [104 :: byte, 101, 108, 108, 111]) + 40"
proof -
  have w: "Writer_Write toy (NewWriter (NewBoxKeys (Some (replicate 32 18)) (Some (replicate 32 27)) (Some (replicate 32 2))))
     (replicate 24 7) \<lparr>inbox = [], wscript = [], outbox = []\<rparr> [104, 101, 108, 108, 111]
   = Ret (45, None, [], \<lparr>inbox = [], wscript = [], outbox =
       [replicate 24 7 @ toy_Seal [104, 101, 108, 108, 111] (replicate 24 7) (replicate 32 54)]\<rparr>)"
    by (simp add: Writer_Write_def NewWriter_def NewBoxKeys_def Encrypt_frame conn_Write_def
        toy_def toy_Seal_def toy_tag_def)
  have s: "SecureWriter_Write toy (NewSecureWriter toy (replicate 32 2) (replicate 32 27))
     (replicate 24 7) \<lparr>inbox = [], wscript = [], outbox = []\<rparr> [104, 101, 108, 108, 111]
   = (45, None, [], \<lparr>inbox = [], wscript = [], outbox =
       [replicate 24 7 @ toy_Seal [104, 101, 108, 108, 111] (replicate 24 7) (replicate 32 54)]\<rparr>)"
    by (simp add: SecureWriter_Write_def NewSecureWriter_def generateSharedKey_def rand_Read_def
        box_SealAfterPrecomputation_def conn_Write_def toy_def toy_Seal_def toy_tag_def)
  from w s toy_contract
    Write_returns_frame_length [OF toy_contract,
      where w = "NewWriter (NewBoxKeys (Some (replicate 32 18)) (Some (replicate 32 27)) (Some (replicate 32 2)))"
        and sw = "NewSecureWriter toy (replicate 32 2) (replicate 32 27)"
        and r = "replicate 24 7" and cn = "\<lparr>inbox = [], wscript = [], outbox = []\<rparr>"
        and p = "[104, 101, 108, 108, 111]" and n = 45 and nb = 45 and ra = "[]" and rb = "[]"
        and cna = "\<lparr>inbox = [], wscript = [], outbox =
          [replicate 24 7 @ toy_Seal [104, 101, 108, 108, 111] (replicate 24 7) (replicate 32 54)]\<rparr>"
        and cnb = "\<lparr>inbox = [], wscript = [], outbox =
          [replicate 24 7 @ toy_Seal [104, 101, 108, 108, 111] (replicate 24 7) (replicate 32 54)]\<rparr>"]
  show ?thesis by simp
qed

text \<open>
  Claim C2 as stated fails: writing the five bytes of \<open>hello\<close> succeeds and returns 45,
  not 5, from both writers.
\<close>

theorem Write_returns_plaintext_length_counterexample:
  "(case Writer_Write toy
           (NewWriter (NewBoxKeys (Some (replicate 32 18)) (Some (replicate 32 27)) (Some (replicate 32 2))))
           (replicate 24 7) \<lparr>inbox = [], wscript = [], outbox = []\<rparr> [104, 101, 108, 108, 111] of
      Ret (n, err, r1, cn1) \<Rightarrow> err = None \<and> n = 45 \<and> n \<noteq> int (length [104 :: byte, 101, 108, 108, 111])
    | Panic \<Rightarrow> False) \<and>
   (case SecureWriter_Write toy (NewSecureWriter toy (replicate 32 2) (replicate 32 27))
           (replicate 24 7) \<lparr>inbox = [], wscript = [], outbox = []\<rparr> [104, 101, 108, 108, 111] of
      (n, err, r1, cn1) \<Rightarrow> err = None \<and> n = 45 \<and> n \<noteq> int (length [104 :: byte, 101, 108, 108, 111]))"
  by (simp add: Writer_Write_def NewWriter_def NewBoxKeys_def Encrypt_frame conn_Write_def
      SecureWriter_Write_def NewSecureWriter_def generateSharedKey_def rand_Read_def
      box_SealAfterPrecomputation_def toy_def toy_Seal_def toy_tag_def)

section \<open>What the readers do with errors\<close>

lemma conn_Read_bounds:
  "conn_Read cn p = (n, err, pa, cna) \<Longrightarrow> 0 \<le> n \<and> nat n \<le> length p \<and> length pa = length p"
  by (auto simp: conn_Read_def split: list.splits if_splits)

lemma conn_Read_chunk:
  "conn_Read cn p = (n, err, pa, cna) \<Longrightarrow> inbox cn = (d, e) # rest \<Longrightarrow>
     nat n = min (length p) (length d) \<and> pa = take (nat n) d @ drop (nat n) p"
  by (auto simp: conn_Read_def split: if_splits)

text \<open>
  Claim C7. When the underlying read returns an error (\<open>io.EOF\<close> included), both
  \<open>Reader.Read\<close> and \<open>SecureReader.Read\<close> return that very error with the count and the
  buffer of the underlying read. Nothing is decoded: the result is the same for every
  instance of the cryptographic primitives and for every key, also for a box whose keys
  are \<open>nil\<close>, on which a call of \<open>Decrypt\<close> would panic.
\<close>

theorem Read_propagates_io_error:
  assumes "conn_Read cn p = (n, Some e, pa, cna)"
  shows "Reader_Read c rd cn p = Ret (n, Some e, pa, cna) \<and>
         SecureReader_Read c sr cn p = Ret (n, Some e, pa, cna)"
  using assms by (simp add: Reader_Read_def SecureReader_Read_def)

theorem Read_propagates_io_error_witness:
  "conn_Read \<lparr>inbox = [], wscript = [], outbox = []\<rparr> (replicate 8 0)
     = (0, Some EOF, replicate 8 0, \<lparr>inbox = [], wscript = [], outbox = []\<rparr>) \<and>
   Reader_Read toy (NewReader (NewBoxKeys None None None)) \<lparr>inbox = [], wscript = [], outbox = []\<rparr> (replicate 8 0)
     = Ret (0, Some EOF, replicate 8 0, \<lparr>inbox = [], wscript = [], outbox = []\<rparr>) \<and>
   SecureReader_Read toy (NewSecureReader toy (replicate 32 3) (replicate 32 18))
       \<lparr>inbox = [], wscript = [], outbox = []\<rparr> (replicate 8 0)
     = Ret (0, Some EOF, replicate 8 0, \<lparr>inbox = [], wscript = [], outbox = []\<rparr>)"
proof -
  have rd: "conn_Read \<lparr>inbox = [], wscript = [], outbox = []\<rparr> (replicate 8 0)
     = (0, Some EOF, replicate 8 0, \<lparr>inbox = [], wscript = [], outbox = []\<rparr>)"
    by (simp add: conn_Read_def)
  from rd Read_propagates_io_error [OF rd, of toy "NewReader (NewBoxKeys None None None)"
      "NewSecureReader toy (replicate 32 3) (replicate 32 18)"]
  show ?thesis by simp
qed

lemma dropWhile_zeros:
  "dropWhile (\<lambda>b. b = 0) (replicate k (0 :: byte) @ ys) = dropWhile (\<lambda>b. b = 0) ys"
  by (induction k) simp_all

lemma trimRight_zeros: "trimRightByte0 (xs @ replicate k 0) = trimRightByte0 xs"
  by (simp add: trimRightByte0_def dropWhile_zeros)

lemma trimRight_last: "xs \<noteq> [] \<Longrightarrow> last xs \<noteq> 0 \<Longrightarrow> trimRightByte0 xs = xs"
  by (cases xs rule: rev_cases) (simp_all add: trimRightByte0_def)

lemma trimLeft_hd: "xs \<noteq> [] \<Longrightarrow> hd xs \<noteq> 0 \<Longrightarrow> trimLeftByte0 xs = xs"
  by (cases xs) (simp_all add: trimLeftByte0_def)

lemma Trim_padded:
  "xs \<noteq> [] \<Longrightarrow> hd xs \<noteq> 0 \<Longrightarrow> last xs \<noteq> 0 \<Longrightarrow> bytes_Trim0 (xs @ replicate k 0) = xs"
  by (simp add: bytes_Trim0_def trimRight_zeros trimRight_last trimLeft_hd)

lemma Decrypt_nil_keys: "PeersPublicKey b = None \<or> privateKey b = None \<Longrightarrow> Decrypt c b em = Panic"
  by (auto simp: Decrypt_def split: option.splits)

lemma Decrypt_short: "length em < 24 \<Longrightarrow> Decrypt c b em = Panic"
  by (simp add: Decrypt_def)

lemma Decrypt_error: "Decrypt c b em = Ret (Inl e) \<Longrightarrow> e = DecryptError \<and> 24 \<le> length em"
  by (auto simp: Decrypt_def Let_def split: if_splits option.splits)

lemma Decrypt_tag_short:
  assumes "\<And>bx nonce k. length bx < 16 \<Longrightarrow> secretbox_Open c bx nonce k = None"
    and "24 \<le> length em" and "length em < 40"
    and "PeersPublicKey b = Some pk" and "privateKey b = Some sk"
  shows "Decrypt c b em = Ret (Inl DecryptError)"
  using assms by (simp add: Decrypt_def box_Open_def box_OpenAfterPrecomputation_def)

text \<open>
  Claim C3 says that a frame shorter than 24 + 16 bytes is answered with a decryption
  error, without a crash. The code has no length check: on a 10-byte chunk the slice
  expression \<open>em[24:]\<close> panics, in \<open>Box.Decrypt\<close>, in \<open>Reader.Read\<close> (which passes
  \<open>p[:n]\<close>) and in \<open>SecureReader.Read\<close> (which passes the trimmed buffer), whatever the
  keys are.
\<close>

theorem short_frame_panics:
  "Decrypt c b (replicate 10 1) = Panic \<and>
   Reader_Read c rd \<lparr>inbox = [(replicate 10 1, None)], wscript = [], outbox = []\<rparr>
     (replicate MAX_BUFFER 0) = Panic \<and>
   SecureReader_Read c sr \<lparr>inbox = [(replicate 10 1, None)], wscript = [], outbox = []\<rparr>
     (replicate MAX_BUFFER 0) = Panic"
proof -
  have 1: "Decrypt c b (replicate 10 1) = Panic" by (simp add: Decrypt_def)
  have rd: "conn_Read \<lparr>inbox = [(replicate 10 1, None)], wscript = [], outbox = []\<rparr>
       (replicate MAX_BUFFER 0)
     = (10, None, replicate 10 1 @ replicate 1014 0, \<lparr>inbox = [], wscript = [], outbox = []\<rparr>)"
    by (simp add: conn_Read_def MAX_BUFFER_def)
  have 2: "Reader_Read c rd \<lparr>inbox = [(replicate 10 1, None)], wscript = [], outbox = []\<rparr>
     (replicate MAX_BUFFER 0) = Panic"
    by (simp add: Reader_Read_def rd Decrypt_def)
  have tr: "bytes_Trim0 (replicate 10 1 @ replicate 1014 0) = replicate 10 1"
    by (simp add: Trim_padded)
  have 3: "SecureReader_Read c sr \<lparr>inbox = [(replicate 10 1, None)], wscript = [], outbox = []\<rparr>
     (replicate MAX_BUFFER 0) = Panic"
    by (simp add: SecureReader_Read_def rd tr)
  from 1 2 3 show ?thesis by simp
qed

section \<open>A frame that does not authenticate\<close>

lemma Decrypt_reject:
  "24 \<le> length em \<Longrightarrow> PeersPublicKey b = Some pk \<Longrightarrow> privateKey b = Some sk \<Longrightarrow>
   secretbox_Open c (drop 24 em) (take 24 em) (Precompute c pk sk) = None \<Longrightarrow>
   Decrypt c b em = Ret (Inl DecryptError)"
  by (simp add: Decrypt_def go_copy_nonce box_Open_def box_OpenAfterPrecomputation_def)

lemma Reader_Read_reject:
  assumes rd: "conn_Read cn p = (n, None, pa, cna)"
    and bx: "PeersPublicKey (rd_bx rd) = Some pk" "privateKey (rd_bx rd) = Some sk"
    and n: "24 \<le> n"
    and rej: "secretbox_Open c (drop 24 (take (nat n) pa)) (take 24 pa) (Precompute c pk sk) = None"
  shows "Reader_Read c rd cn p = Ret (n, Some DecryptError, pa, cna)"
proof -
  from n have n24: "24 \<le> nat n" by simp
  with conn_Read_bounds [OF rd] have len: "length (take (nat n) pa) = nat n" by simp
  from n24 have "take 24 (take (nat n) pa) = take 24 pa" by (simp add: min_def)
  with rej len n24 have "Decrypt c (rd_bx rd) (take (nat n) pa) = Ret (Inl DecryptError)"
    by (intro Decrypt_reject [where pk = pk and sk = sk]) (simp_all add: bx)
  then show ?thesis by (simp add: Reader_Read_def rd)
qed

lemma SecureReader_Read_reject:
  assumes rd: "conn_Read cn p = (n, None, pa, cna)"
    and em: "bytes_Trim0 pa = em"
    and len: "24 \<le> length em"
    and rej: "secretbox_Open c (drop 24 em) (take 24 em) (sr_key sr) = None"
  shows "SecureReader_Read c sr cn p = Ret (- 1, Some errInvalidKeyPair, pa, cna)"
  using len rej
  by (simp add: SecureReader_Read_def rd em Let_def go_copy_nonce box_OpenAfterPrecomputation_def)

text \<open>
  Claim C6, as amended. The claim says the caller's buffer is the same after a read whose
  frame fails to authenticate. Both readers use the caller's buffer \<open>p\<close> as the buffer of
  the underlying read, so the raw bytes are in it before decryption starts. What holds:
  when the underlying read succeeds with a chunk \<open>d\<close> and decryption fails, no plaintext
  is copied; the buffer is as the underlying read left it, the first \<open>n\<close> bytes of \<open>d\<close>
  followed by the rest of \<open>p\<close>, and a decryption error is reported. For \<open>Reader.Read\<close>
  (on a box whose peer key and private key are set) this is every read of \<open>n \<ge> 24\<close>
  bytes whose box \<open>p[24:n]\<close> does not authenticate under the nonce \<open>p[:24]\<close>; it returns
  \<open>n\<close> with the error of \<open>Decrypt\<close>. For
  \<open>SecureReader.Read\<close> it is every read after which the buffer, trimmed of its leading
  and trailing zero bytes, still holds at least 24 bytes and does not authenticate; it
  returns \<open>-1\<close> with \<open>errInvalidKeyPair\<close>. Reads that leave fewer than 24 bytes to decode
  are not covered.
\<close>

theorem Read_decrypt_failure_keeps_raw_bytes:
  "(conn_Read cn p = (n, None, pa, cna) \<and> inbox cn = (d, ed) # rest \<and>
      PeersPublicKey (rd_bx rd) = Some pk \<and> privateKey (rd_bx rd) = Some sk \<and> 24 \<le> n \<and>
      secretbox_Open c (drop 24 (take (nat n) pa)) (take 24 pa) (Precompute c pk sk) = None
    \<longrightarrow> Reader_Read c rd cn p = Ret (n, Some DecryptError, pa, cna) \<and>
        pa = take (nat n) d @ drop (nat n) p) \<and>
   (conn_Read cn p = (n, None, pa, cna) \<and> inbox cn = (d, ed) # rest \<and>
      24 \<le> length (bytes_Trim0 pa) \<and>
      secretbox_Open c (drop 24 (bytes_Trim0 pa)) (take 24 (bytes_Trim0 pa)) (sr_key sr) = None
    \<longrightarrow> SecureReader_Read c sr cn p = Ret (- 1, Some errInvalidKeyPair, pa, cna) \<and>
        pa = take (nat n) d @ drop (nat n) p)"
  using conn_Read_chunk [of cn p n None pa cna d ed rest]
  by (auto intro: Reader_Read_reject SecureReader_Read_reject)

lemma Trim_unpadded: "xs \<noteq> [] \<Longrightarrow> hd xs \<noteq> 0 \<Longrightarrow> last xs \<noteq> 0 \<Longrightarrow> bytes_Trim0 xs = xs"
  using Trim_padded [of xs 0] by simp

theorem Read_decrypt_failure_keeps_raw_bytes_witness:
  "Reader_Read toy
     (NewReader (NewBoxKeys (Some (replicate 32 27)) (Some (replicate 32 18)) (Some (replicate 32 3))))
     \<lparr>inbox = [(replicate 40 1, None)], wscript = [], outbox = []\<rparr> (replicate 40 9)
     = Ret (40, Some DecryptError, replicate 40 1, \<lparr>inbox = [], wscript = [], outbox = []\<rparr>) \<and>
   SecureReader_Read toy (NewSecureReader toy (replicate 32 3) (replicate 32 18))
     \<lparr>inbox = [(replicate 40 1, None)], wscript = [], outbox = []\<rparr> (replicate 40 9)
     = Ret (- 1, Some errInvalidKeyPair, replicate 40 1, \<lparr>inbox = [], wscript = [], outbox = []\<rparr>)"
proof -
  have rd: "conn_Read \<lparr>inbox = [(replicate 40 1, None)], wscript = [], outbox = []\<rparr> (replicate 40 9)
      = (40, None, replicate 40 1, \<lparr>inbox = [], wscript = [], outbox = []\<rparr>)"
    by (simp add: conn_Read_def)
  have tr: "bytes_Trim0 (replicate 40 1) = replicate 40 1"
    by (simp add: Trim_unpadded)
  have rej: "toy_Open (replicate 16 1) (replicate 24 1) (replicate 32 54) = None"
    by code_simp
  from Read_decrypt_failure_keeps_raw_bytes [where c = toy and n = 40 and p = "replicate 40 9"
      and pa = "replicate 40 1" and d = "replicate 40 1" and ed = None and rest = "[]"
      and cn = "\<lparr>inbox = [(replicate 40 1, None)], wscript = [], outbox = []\<rparr>"
      and cna = "\<lparr>inbox = [], wscript = [], outbox = []\<rparr>"
      and rd = "NewReader (NewBoxKeys (Some (replicate 32 27)) (Some (replicate 32 18)) (Some (replicate 32 3)))"
      and pk = "replicate 32 18" and sk = "replicate 32 3"
      and sr = "NewSecureReader toy (replicate 32 3) (replicate 32 18)"] rd tr rej
  show ?thesis
    by (simp add: NewReader_def NewBoxKeys_def NewSecureReader_def generateSharedKey_def toy_def)
qed

text \<open>
  Claim C6 as stated fails: the frame of \<open>hello\<close> with its last byte changed from 215 to
  216 is refused by both readers, and the zeroed 64-byte buffer holds the 45 raw bytes
  of that frame afterwards.
\<close>

theorem Read_leaves_buffer_unchanged_counterexample:
  "Reader_Read toy
     (NewReader (NewBoxKeys (Some (replicate 32 27)) (Some (replicate 32 18)) (Some (replicate 32 3))))
     \<lparr>inbox = [(replicate 24 7 @ 129 # replicate 15 192 @ [208, 205, 212, 212, 216], None)],
        wscript = [], outbox = []\<rparr> (replicate 64 0)
     = Ret (45, Some DecryptError,
         (replicate 24 7 @ 129 # replicate 15 192 @ [208, 205, 212, 212, 216]) @ replicate 19 0,
         \<lparr>inbox = [], wscript = [], outbox = []\<rparr>) \<and>
   SecureReader_Read toy (NewSecureReader toy (replicate 32 3) (replicate 32 18))
     \<lparr>inbox = [(replicate 24 7 @ 129 # replicate 15 192 @ [208, 205, 212, 212, 216], None)],
        wscript = [], outbox = []\<rparr> (replicate 64 0)
     = Ret (- 1, Some errInvalidKeyPair,
         (replicate 24 7 @ 129 # replicate 15 192 @ [208, 205, 212, 212, 216]) @ replicate 19 0,
         \<lparr>inbox = [], wscript = [], outbox = []\<rparr>) \<and>
   (replicate 24 7 @ 129 # replicate 15 192 @ [208, 205, 212, 212, 216]) @ replicate 19 0
     \<noteq> replicate 64 (0 :: byte)"
proof -
  let ?f = "replicate 24 7 @ 129 # replicate 15 192 @ [208, 205, 212, 212, 216 :: byte]"
  have rd: "conn_Read \<lparr>inbox = [(?f, None)], wscript = [], outbox = []\<rparr> (replicate 64 0)
      = (45, None, ?f @ replicate 19 0, \<lparr>inbox = [], wscript = [], outbox = []\<rparr>)"
    by (simp add: conn_Read_def)
  have tr: "bytes_Trim0 (?f @ replicate 19 0) = ?f"
    by (rule Trim_padded) simp_all
  have rej: "toy_Open (129 # replicate 15 192 @ [208, 205, 212, 212, 216]) (replicate 24 7) (replicate 32 54) = None"
    by code_simp
  have 1: "Reader_Read toy
     (NewReader (NewBoxKeys (Some (replicate 32 27)) (Some (replicate 32 18)) (Some (replicate 32 3))))
     \<lparr>inbox = [(?f, None)], wscript = [], outbox = []\<rparr> (replicate 64 0)
     = Ret (45, Some DecryptError, ?f @ replicate 19 0, \<lparr>inbox = [], wscript = [], outbox = []\<rparr>)"
    by (rule Reader_Read_reject [OF rd, where pk = "replicate 32 18" and sk = "replicate 32 3"])
      (simp_all add: NewReader_def NewBoxKeys_def toy_def rej)
  have 2: "SecureReader_Read toy (NewSecureReader toy (replicate 32 3) (replicate 32 18))
     \<lparr>inbox = [(?f, None)], wscript = [], outbox = []\<rparr> (replicate 64 0)
     = Ret (- 1, Some errInvalidKeyPair, ?f @ replicate 19 0, \<lparr>inbox = [], wscript = [], outbox = []\<rparr>)"
    by (rule SecureReader_Read_reject [OF rd tr])
      (simp_all add: NewSecureReader_def generateSharedKey_def toy_def rej)
  have 3: "?f @ replicate 19 0 \<noteq> replicate 64 (0 :: byte)"
    by code_simp
  from 1 2 3 show ?thesis by blast
qed

section \<open>Trimming in SecureReader.Read\<close>

lemma last_dropWhile: "dropWhile P xs \<noteq> [] \<Longrightarrow> last (dropWhile P xs) = last xs"
  by (induction xs) (auto split: if_splits)

lemma trimRight_ends: "trimRightByte0 s \<noteq> [] \<Longrightarrow> last (trimRightByte0 s) \<noteq> 0"
  using hd_dropWhile [of "\<lambda>b. b = 0" "rev s"]
  by (simp add: trimRightByte0_def last_rev)

lemma Trim_ends:
  assumes "bytes_Trim0 s \<noteq> []"
  shows "hd (bytes_Trim0 s) \<noteq> 0 \<and> last (bytes_Trim0 s) \<noteq> 0"
proof -
  let ?t = "trimRightByte0 s"
  from assms have ne: "dropWhile (\<lambda>b. b = 0) ?t \<noteq> []"
    by (simp add: bytes_Trim0_def trimLeftByte0_def)
  then have "?t \<noteq> []" by auto
  then have "last ?t \<noteq> 0" by (rule trimRight_ends)
  with last_dropWhile [OF ne] hd_dropWhile [OF ne] show ?thesis
    by (simp add: bytes_Trim0_def trimLeftByte0_def)
qed

lemma Trim_differs:
  assumes "f \<noteq> []" and "hd f = 0 \<or> last f = 0"
  shows "bytes_Trim0 s \<noteq> f"
  using assms Trim_ends [of s] by auto

lemma leading_zeros: "\<exists>k. xs = replicate k (0 :: byte) @ dropWhile (\<lambda>b. b = 0) xs"
proof (induction xs)
  case Nil
  show ?case by simp
next
  case (Cons x xs)
  show ?case
  proof (cases "x = 0")
    case True
    from Cons obtain k where "xs = replicate k 0 @ dropWhile (\<lambda>b. b = 0) xs" ..
    with True have "x # xs = replicate (Suc k) 0 @ dropWhile (\<lambda>b. b = 0) (x # xs)" by simp
    then show ?thesis ..
  next
    case False
    then have "x # xs = replicate 0 0 @ dropWhile (\<lambda>b. b = 0) (x # xs)" by simp
    then show ?thesis ..
  qed
qed

lemma trailing_zeros: "\<exists>j. s = trimRightByte0 s @ replicate j 0"
proof -
  from leading_zeros [of "rev s"] obtain j where
    "rev s = replicate j 0 @ dropWhile (\<lambda>b. b = 0) (rev s)" ..
  then have "rev (rev s) = rev (replicate j 0 @ dropWhile (\<lambda>b. b = 0) (rev s))" by simp
  then have "s = trimRightByte0 s @ replicate j 0" by (simp add: trimRightByte0_def)
  then show ?thesis ..
qed

lemma Trim_zero_ends: "\<exists>k j. s = replicate k 0 @ bytes_Trim0 s @ replicate j 0"
proof -
  from trailing_zeros [of s] obtain j where j: "s = trimRightByte0 s @ replicate j 0" ..
  from leading_zeros [of "trimRightByte0 s"] obtain k where
    k: "trimRightByte0 s = replicate k 0 @ bytes_Trim0 s"
    by (auto simp: bytes_Trim0_def trimLeftByte0_def)
  from j k have "s = replicate k 0 @ bytes_Trim0 s @ replicate j 0" by simp
  then show ?thesis by blast
qed


text \<open>
  Claim C9. \<open>SecureReader.Read\<close> of \<open>main.go\<close> trims the whole buffer \<open>p\<close> as the
  underlying read left it (the received bytes followed by the rest of \<open>p\<close>), not
  \<open>p[:n]\<close>: what it splits into nonce and ciphertext is that buffer without its leading
  and its trailing zero bytes, a slice that is empty or starts and ends with a non-zero
  byte. So for every received frame \<open>f\<close> whose first or last byte is zero the slice is
  not \<open>f\<close>, and the nonce and ciphertext handed to the library are not those of \<open>f\<close>
  (when fewer than 24 bytes are left the call panics and nothing is handed over).
\<close>

theorem SecureReader_Read_trims_whole_buffer:
  assumes "conn_Read cn p = (n, None, pa, cna)" and "inbox cn = (f, e) # rest"
    and "f \<noteq> []" and "hd f = 0 \<or> last f = 0"
  shows "pa = take (nat n) f @ drop (nat n) p \<and>
         (\<exists>k j. pa = replicate k 0 @ bytes_Trim0 pa @ replicate j 0) \<and>
         (bytes_Trim0 pa = [] \<or> hd (bytes_Trim0 pa) \<noteq> 0 \<and> last (bytes_Trim0 pa) \<noteq> 0) \<and>
         bytes_Trim0 pa \<noteq> f \<and>
         (take 24 (bytes_Trim0 pa), drop 24 (bytes_Trim0 pa)) \<noteq> (take 24 f, drop 24 f) \<and>
         SecureReader_Read c sr cn p =
           (if length (bytes_Trim0 pa) < 24 then Panic
            else case secretbox_Open c (drop 24 (bytes_Trim0 pa)) (take 24 (bytes_Trim0 pa)) (sr_key sr) of
                   Some dm \<Rightarrow> (let (p2, k) = go_copy pa dm in Ret (int k, None, p2, cna))
                 | None \<Rightarrow> Ret (- 1, Some errInvalidKeyPair, pa, cna))"
proof -
  have ne: "bytes_Trim0 pa \<noteq> f" using assms(3,4) by (rule Trim_differs)
  have "(take 24 (bytes_Trim0 pa), drop 24 (bytes_Trim0 pa)) \<noteq> (take 24 f, drop 24 f)"
  proof
    assume "(take 24 (bytes_Trim0 pa), drop 24 (bytes_Trim0 pa)) = (take 24 f, drop 24 f)"
    then have "take 24 (bytes_Trim0 pa) @ drop 24 (bytes_Trim0 pa) = take 24 f @ drop 24 f"
      by simp
    with ne show False by simp
  qed
  moreover have "SecureReader_Read c sr cn p =
           (if length (bytes_Trim0 pa) < 24 then Panic
            else case secretbox_Open c (drop 24 (bytes_Trim0 pa)) (take 24 (bytes_Trim0 pa)) (sr_key sr) of
                   Some dm \<Rightarrow> (let (p2, k) = go_copy pa dm in Ret (int k, None, p2, cna))
                 | None \<Rightarrow> Ret (- 1, Some errInvalidKeyPair, pa, cna))"
    by (simp add: SecureReader_Read_def assms(1) Let_def go_copy_nonce box_OpenAfterPrecomputation_def)
  moreover have "bytes_Trim0 pa = [] \<or> hd (bytes_Trim0 pa) \<noteq> 0 \<and> last (bytes_Trim0 pa) \<noteq> 0"
    using Trim_ends [of pa] by blast
  ultimately show ?thesis
    using ne conn_Read_chunk [OF assms(1,2)] Trim_zero_ends [of pa] by simp
qed

text \<open>
  An instance: the frame of the five bytes 104, 101, 108, 108, 152 under the nonce of 24
  sevens is valid and ends with a zero byte. Read into a zeroed 64-byte buffer, it is
  trimmed to its first 44 bytes and refused.
\<close>

theorem SecureReader_Read_trims_whole_buffer_witness:
  "replicate 24 7 @ toy_Seal [104, 101, 108, 108, 152] (replicate 24 7) (replicate 32 54)
     = replicate 24 7 @ 170 # replicate 15 192 @ [208, 205, 212, 212, 0] \<and>
   conn_Read
       \<lparr>inbox = [(replicate 24 7 @ 170 # replicate 15 192 @ [208, 205, 212, 212, 0], None)],
          wscript = [], outbox = []\<rparr> (replicate 64 0)
     = (45, None, (replicate 24 7 @ 170 # replicate 15 192 @ [208, 205, 212, 212, 0]) @ replicate 19 0,
        \<lparr>inbox = [], wscript = [], outbox = []\<rparr>) \<and>
   bytes_Trim0 ((replicate 24 7 @ 170 # replicate 15 192 @ [208, 205, 212, 212, 0]) @ replicate 19 0)
     = replicate 24 7 @ 170 # replicate 15 192 @ [208, 205, 212, 212] \<and>
   bytes_Trim0 ((replicate 24 7 @ 170 # replicate 15 192 @ [208, 205, 212, 212, 0]) @ replicate 19 0)
     \<noteq> replicate 24 7 @ 170 # replicate 15 192 @ [208, 205, 212, 212, 0] \<and>
   SecureReader_Read toy (NewSecureReader toy (replicate 32 3) (replicate 32 18))
       \<lparr>inbox = [(replicate 24 7 @ 170 # replicate 15 192 @ [208, 205, 212, 212, 0], None)],
          wscript = [], outbox = []\<rparr> (replicate 64 0)
     = Ret (- 1, Some errInvalidKeyPair,
         (replicate 24 7 @ 170 # replicate 15 192 @ [208, 205, 212, 212, 0]) @ replicate 19 0,
         \<lparr>inbox = [], wscript = [], outbox = []\<rparr>)"
proof -
  let ?f = "replicate 24 7 @ 170 # replicate 15 192 @ [208, 205, 212, 212, 0 :: byte]"
  let ?g = "replicate 24 7 @ 170 # replicate 15 192 @ [208, 205, 212, 212 :: byte]"
  let ?cn = "\<lparr>inbox = [(?f, None)], wscript = [], outbox = []\<rparr>"
  have fr: "replicate 24 7 @ toy_Seal [104, 101, 108, 108, 152] (replicate 24 7) (replicate 32 54) = ?f"
    by code_simp
  have rd: "conn_Read ?cn (replicate 64 0)
      = (45, None, ?f @ replicate 19 0, \<lparr>inbox = [], wscript = [], outbox = []\<rparr>)"
    by (simp add: conn_Read_def)
  have "?f @ replicate 19 0 = ?g @ replicate 20 0" by code_simp
  moreover have "bytes_Trim0 (?g @ replicate 20 0) = ?g" by (rule Trim_padded) simp_all
  ultimately have tr: "bytes_Trim0 (?f @ replicate 19 0) = ?g" by simp
  have lg: "length ?g = 44" by simp
  have dg: "drop 24 ?g = 170 # replicate 15 192 @ [208, 205, 212, 212]"
    and tg: "take 24 ?g = replicate 24 7" by simp_all
  have rej: "toy_Open (170 # replicate 15 192 @ [208, 205, 212, 212]) (replicate 24 7) (replicate 32 54) = None"
    by code_simp
  have key: "sr_key (NewSecureReader toy (replicate 32 3) (replicate 32 18)) = replicate 32 54"
    by (simp add: NewSecureReader_def generateSharedKey_def toy_def)
  have sec: "secretbox_Open toy = toy_Open" by (simp add: toy_def)
  from SecureReader_Read_trims_whole_buffer [OF rd, of ?f None "[]" toy
      "NewSecureReader toy (replicate 32 3) (replicate 32 18)"]
  have "bytes_Trim0 (?f @ replicate 19 0) \<noteq> ?f"
    and "SecureReader_Read toy (NewSecureReader toy (replicate 32 3) (replicate 32 18)) ?cn (replicate 64 0)
      = Ret (- 1, Some errInvalidKeyPair, ?f @ replicate 19 0, \<lparr>inbox = [], wscript = [], outbox = []\<rparr>)"
    unfolding tr key sec dg tg rej using lg by simp_all
  with fr rd tr show ?thesis by blast
qed


section \<open>Nonces\<close>

lemma SecureWriter_Write_frame:
  "24 \<le> length r \<Longrightarrow>
   conn_Write cn (take 24 r @ secretbox_Seal c p (take 24 r) (sw_key sw)) = (n, None, cna) \<Longrightarrow>
   SecureWriter_Write c sw r cn p =
     (int (length (take 24 r @ secretbox_Seal c p (take 24 r) (sw_key sw))), None, drop 24 r, cna)"
  by (simp add: SecureWriter_Write_def rand_Read_def box_SealAfterPrecomputation_def)

text \<open>
  Claim C8. Every call of \<open>Box.Encrypt\<close> and of \<open>SecureWriter.Write\<close> for which the
  entropy source delivers draws 24 fresh bytes from it, seals the message under them and
  puts them first in the frame it produces; \<open>SecureWriter.Write\<close> hands that frame to the
  stream in one write. Two successive calls take the first 24 and the next 24 bytes of
  the source, so when these differ the nonce fields of the two frames differ.
\<close>

theorem nonce_fresh_per_call:
  assumes "48 \<le> length r"
    and "PeersPublicKey b = Some pk" and "privateKey b = Some sk"
    and "conn_Write cn (take 24 r @ secretbox_Seal c p (take 24 r) (sw_key sw)) = (n, None, cna)"
    and "conn_Write cna (take 24 (drop 24 r) @ secretbox_Seal c p' (take 24 (drop 24 r)) (sw_key sw))
           = (n', None, cnb)"
  shows "Encrypt c b m r =
           (Ret (Inr (take 24 r @ secretbox_Seal c m (take 24 r) (Precompute c pk sk))), drop 24 r) \<and>
         Encrypt c b m' (drop 24 r) =
           (Ret (Inr (take 24 (drop 24 r) @
                      secretbox_Seal c m' (take 24 (drop 24 r)) (Precompute c pk sk))), drop 48 r) \<and>
         SecureWriter_Write c sw r cn p =
           (int (length (take 24 r @ secretbox_Seal c p (take 24 r) (sw_key sw))), None, drop 24 r, cna) \<and>
         SecureWriter_Write c sw (drop 24 r) cna p' =
           (int (length (take 24 (drop 24 r) @ secretbox_Seal c p' (take 24 (drop 24 r)) (sw_key sw))),
            None, drop 48 r, cnb) \<and>
         outbox cnb = outbox cn @
           [take 24 r @ secretbox_Seal c p (take 24 r) (sw_key sw),
            take 24 (drop 24 r) @ secretbox_Seal c p' (take 24 (drop 24 r)) (sw_key sw)] \<and>
         length (take 24 r) = 24 \<and> length (take 24 (drop 24 r)) = 24 \<and>
         (take 24 r \<noteq> take 24 (drop 24 r) \<longrightarrow>
            take 24 (take 24 r @ secretbox_Seal c m (take 24 r) (Precompute c pk sk)) \<noteq>
            take 24 (take 24 (drop 24 r) @
                     secretbox_Seal c m' (take 24 (drop 24 r)) (Precompute c pk sk)) \<and>
            take 24 (take 24 r @ secretbox_Seal c p (take 24 r) (sw_key sw)) \<noteq>
            take 24 (take 24 (drop 24 r) @ secretbox_Seal c p' (take 24 (drop 24 r)) (sw_key sw)))"
proof -
  obtain pub where b: "b = \<lparr>PublicKey = pub, PeersPublicKey = Some pk, privateKey = Some sk\<rparr>"
    using assms(2,3) by (cases b) simp
  from assms(1) have l1: "24 \<le> length r" and l2: "24 \<le> length (drop 24 r)" by simp_all
  have e1: "Encrypt c b m r =
      (Ret (Inr (take 24 r @ secretbox_Seal c m (take 24 r) (Precompute c pk sk))), drop 24 r)"
    unfolding b by (rule Encrypt_frame [OF l1])
  have e2: "Encrypt c b m' (drop 24 r) =
      (Ret (Inr (take 24 (drop 24 r) @
                 secretbox_Seal c m' (take 24 (drop 24 r)) (Precompute c pk sk))), drop 48 r)"
    unfolding b using Encrypt_frame [OF l2, of c pub pk sk m'] by simp
  have w1: "SecureWriter_Write c sw r cn p =
      (int (length (take 24 r @ secretbox_Seal c p (take 24 r) (sw_key sw))), None, drop 24 r, cna)"
    by (rule SecureWriter_Write_frame [OF l1 assms(4)])
  have w2: "SecureWriter_Write c sw (drop 24 r) cna p' =
      (int (length (take 24 (drop 24 r) @ secretbox_Seal c p' (take 24 (drop 24 r)) (sw_key sw))),
       None, drop 48 r, cnb)"
    using SecureWriter_Write_frame [OF l2 assms(5)] by simp
  have ob: "outbox cnb = outbox cn @
      [take 24 r @ secretbox_Seal c p (take 24 r) (sw_key sw),
       take 24 (drop 24 r) @ secretbox_Seal c p' (take 24 (drop 24 r)) (sw_key sw)]"
    using conn_Write_ok [OF assms(4)] conn_Write_ok [OF assms(5)] by simp
  have len: "length (take 24 r) = 24" "length (take 24 (drop 24 r)) = 24"
    using assms(1) by simp_all
  from e1 e2 w1 w2 ob len show ?thesis by simp
qed

theorem nonce_fresh_per_call_witness:
  "Encrypt toy \<lparr>PublicKey = None, PeersPublicKey = Some (replicate 32 27), privateKey = Some (replicate 32 2)\<rparr>
     [104, 101, 108, 108, 111] (replicate 24 7 @ replicate 24 8)
     = (Ret (Inr (replicate 24 7 @ toy_Seal [104, 101, 108, 108, 111] (replicate 24 7) (replicate 32 54))),
        replicate 24 8) \<and>
   Encrypt toy \<lparr>PublicKey = None, PeersPublicKey = Some (replicate 32 27), privateKey = Some (replicate 32 2)\<rparr>
     [104, 101, 108, 108, 111] (replicate 24 8)
     = (Ret (Inr (replicate 24 8 @ toy_Seal [104, 101, 108, 108, 111] (replicate 24 8) (replicate 32 54))),
        []) \<and>
   SecureWriter_Write toy \<lparr>sw_key = replicate 32 54\<rparr> (replicate 24 7 @ replicate 24 8)
     \<lparr>inbox = [], wscript = [], outbox = []\<rparr> [104, 101, 108, 108, 111]
     = (45, None, replicate 24 8,
        \<lparr>inbox = [], wscript = [],
           outbox = [replicate 24 7 @ toy_Seal [104, 101, 108, 108, 111] (replicate 24 7) (replicate 32 54)]\<rparr>) \<and>
   SecureWriter_Write toy \<lparr>sw_key = replicate 32 54\<rparr> (replicate 24 8)
     \<lparr>inbox = [], wscript = [],
        outbox = [replicate 24 7 @ toy_Seal [104, 101, 108, 108, 111] (replicate 24 7) (replicate 32 54)]\<rparr>
     [104, 101, 108, 108, 111]
     = (45, None, [],
        \<lparr>inbox = [], wscript = [],
           outbox = [replicate 24 7 @ toy_Seal [104, 101, 108, 108, 111] (replicate 24 7) (replicate 32 54),
                     replicate 24 8 @ toy_Seal [104, 101, 108, 108, 111] (replicate 24 8) (replicate 32 54)]\<rparr>) \<and>
   take 24 (replicate 24 7 @ toy_Seal [104, 101, 108, 108, 111] (replicate 24 7) (replicate 32 54))
     \<noteq> take 24 (replicate 24 8 @ toy_Seal [104, 101, 108, 108, 111] (replicate 24 8) (replicate 32 54))"
proof -
  let ?m = "[104, 101, 108, 108, 111] :: bytes"
  let ?f1 = "replicate 24 7 @ toy_Seal ?m (replicate 24 7) (replicate 32 54)"
  let ?f2 = "replicate 24 8 @ toy_Seal ?m (replicate 24 8) (replicate 32 54)"
  have c1: "conn_Write \<lparr>inbox = [], wscript = [], outbox = []\<rparr>
       (take 24 (replicate 24 7 @ replicate 24 8) @
        secretbox_Seal toy ?m (take 24 (replicate 24 7 @ replicate 24 8)) (sw_key \<lparr>sw_key = replicate 32 54\<rparr>))
      = (45, None, \<lparr>inbox = [], wscript = [], outbox = [?f1]\<rparr>)"
    by (simp add: conn_Write_def toy_def toy_Seal_def toy_tag_def)
  have c2: "conn_Write \<lparr>inbox = [], wscript = [], outbox = [?f1]\<rparr>
       (take 24 (drop 24 (replicate 24 7 @ replicate 24 8)) @
        secretbox_Seal toy ?m (take 24 (drop 24 (replicate 24 7 @ replicate 24 8)))
          (sw_key \<lparr>sw_key = replicate 32 54\<rparr>))
      = (45, None, \<lparr>inbox = [], wscript = [], outbox = [?f1, ?f2]\<rparr>)"
    by (simp add: conn_Write_def toy_def toy_Seal_def toy_tag_def)
  have l: "length ?f1 = 45" "length ?f2 = 45" by (simp_all add: toy_Seal_def toy_tag_def)
  have ne: "replicate 24 (7 :: byte) \<noteq> replicate 24 8" by code_simp
  from nonce_fresh_per_call [OF _ _ _ c1 c2,
      of "\<lparr>PublicKey = None, PeersPublicKey = Some (replicate 32 27), privateKey = Some (replicate 32 2)\<rparr>"
         "replicate 32 27" "replicate 32 2" ?m ?m] l ne
  show ?thesis by (simp add: toy_def)
qed

section \<open>The key exchange\<close>

text \<open>
  The responder checks the error of its key write and of its key read and returns
  before a server is built; the initiator checks the errors of \<open>net.Dial\<close>, \<open>NewBox\<close>
  and the key write.
\<close>

lemma NewBox_ok:
  "32 \<le> length r \<Longrightarrow>
   NewBox c r = (Inr \<lparr>PublicKey = Some (scalarBaseMult c (take 32 r)), PeersPublicKey = None,
                       privateKey = Some (take 32 r)\<rparr>, drop 32 r)"
  by (simp add: NewBox_def box_GenerateKey_def rand_Read_def NewBoxKeys_def)

lemma NewBox_fails: "length r < 32 \<Longrightarrow> NewBox c r = (Inl EntropyError, [])"
  by (simp add: NewBox_def box_GenerateKey_def rand_Read_def)

lemma copy_peersKey:
  "conn_Read cn (replicate 32 0) = (n, err, key, cna) \<Longrightarrow>
   fst (go_copy (replicate 32 0) (take (nat n) key)) = take (nat n) key @ replicate (32 - nat n) 0"
  by (drule conn_Read_bounds) (simp add: go_copy_def min_def Let_def)

lemma handle_handshake_write_fails:
  "32 \<le> length r \<Longrightarrow> conn_Write client (scalarBaseMult c (take 32 r)) = (nw, Some e, cnw) \<Longrightarrow>
   handle_handshake c r client = (Ret (Inl e), drop 32 r, cnw)"
  by (simp add: handle_handshake_def NewBox_ok)

lemma handle_handshake_read_fails:
  "32 \<le> length r \<Longrightarrow> conn_Write client (scalarBaseMult c (take 32 r)) = (nw, None, cnw) \<Longrightarrow>
   conn_Read cnw (replicate 32 0) = (n, Some e, key, cnr) \<Longrightarrow>
   handle_handshake c r client = (Ret (Inl e), drop 32 r, cnr)"
  by (simp add: handle_handshake_def NewBox_ok)

lemma handle_handshake_entropy_fails:
  "length r < 32 \<Longrightarrow> handle_handshake c r client = (Ret (Inl EntropyError), [], client)"
  by (simp add: handle_handshake_def NewBox_fails)

lemma handle_aborts:
  "handle_handshake c r client = (Ret (Inl e), ra, cna) \<Longrightarrow> handle c r client = Ret ([e], ra, cna)"
  by (simp add: handle_def)

lemma handle_handshake_ok:
  "32 \<le> length r \<Longrightarrow> conn_Write client (scalarBaseMult c (take 32 r)) = (nw, None, cnw) \<Longrightarrow>
   conn_Read cnw (replicate 32 0) = (n, None, key, cnr) \<Longrightarrow>
   handle_handshake c r client =
     (Ret (Inr (NewServer
        (NewReader \<lparr>PublicKey = Some (scalarBaseMult c (take 32 r)),
                     PeersPublicKey = Some (take (nat n) key @ replicate (32 - nat n) 0),
                     privateKey = Some (take 32 r)\<rparr>)
        (NewWriter \<lparr>PublicKey = Some (scalarBaseMult c (take 32 r)),
                     PeersPublicKey = Some (take (nat n) key @ replicate (32 - nat n) 0),
                     privateKey = Some (take 32 r)\<rparr>))), drop 32 r, cnr)"
  by (simp add: handle_handshake_def NewBox_ok copy_peersKey Let_def)

lemma Dial_net_fails: "net_Dial addr = Inl e \<Longrightarrow> Dial c net_Dial r addr = (Ret (Inl e), r)"
  by (simp add: Dial_def)

lemma Dial_write_fails:
  "net_Dial addr = Inr cn \<Longrightarrow> 32 \<le> length r \<Longrightarrow>
   conn_Read cn (replicate 32 0) = (n, err, key, cnr) \<Longrightarrow>
   conn_Write cnr (scalarBaseMult c (take 32 r)) = (nw, Some e, cnw) \<Longrightarrow>
   Dial c net_Dial r addr = (Ret (Inl e), drop 32 r)"
  by (simp add: Dial_def NewBox_ok)

lemma Dial_established:
  "net_Dial addr = Inr cn \<Longrightarrow> 32 \<le> length r \<Longrightarrow>
   conn_Read cn (replicate 32 0) = (n, err, key, cnr) \<Longrightarrow>
   conn_Write cnr (scalarBaseMult c (take 32 r)) = (nw, None, cnw) \<Longrightarrow>
   Dial c net_Dial r addr =
     (Ret (Inr (NewClient
        (NewReader \<lparr>PublicKey = Some (scalarBaseMult c (take 32 r)),
                     PeersPublicKey = Some (take (nat n) key @ replicate (32 - nat n) 0),
                     privateKey = Some (take 32 r)\<rparr>)
        (NewWriter \<lparr>PublicKey = Some (scalarBaseMult c (take 32 r)),
                     PeersPublicKey = Some (take (nat n) key @ replicate (32 - nat n) 0),
                     privateKey = Some (take 32 r)\<rparr>), cnw)), drop 32 r)"
  by (simp add: Dial_def NewBox_ok copy_peersKey Let_def)

text \<open>
  Claim C4 says that every read or write failure of the key exchange aborts the
  connection attempt, for both roles. \<open>Dial\<close> does not check the error of its key read
  (the variable is overwritten by the key write): on a connection that is at end of
  stream the read returns \<open>(0, io.EOF)\<close>, and \<open>Dial\<close> still returns a client, with no
  error, whose peer key is 32 zero bytes.
\<close>

theorem Dial_proceeds_after_failed_key_read:
  "conn_Read \<lparr>inbox = [], wscript = [], outbox = []\<rparr> (replicate 32 0)
     = (0, Some EOF, replicate 32 0, \<lparr>inbox = [], wscript = [], outbox = []\<rparr>) \<and>
   Dial toy (\<lambda>addr. Inr \<lparr>inbox = [], wscript = [], outbox = []\<rparr>) (replicate 32 2) ''localhost:8080''
     = (Ret (Inr (NewClient
          (NewReader \<lparr>PublicKey = Some (replicate 32 18), PeersPublicKey = Some (replicate 32 0),
                       privateKey = Some (replicate 32 2)\<rparr>)
          (NewWriter \<lparr>PublicKey = Some (replicate 32 18), PeersPublicKey = Some (replicate 32 0),
                       privateKey = Some (replicate 32 2)\<rparr>),
          \<lparr>inbox = [], wscript = [], outbox = [replicate 32 18]\<rparr>)), [])"
proof -
  have rd: "conn_Read \<lparr>inbox = [], wscript = [], outbox = []\<rparr> (replicate 32 0)
     = (0, Some EOF, replicate 32 0, \<lparr>inbox = [], wscript = [], outbox = []\<rparr>)"
    by (simp add: conn_Read_def)
  have wr: "conn_Write \<lparr>inbox = [], wscript = [], outbox = []\<rparr> (scalarBaseMult toy (take 32 (replicate 32 2)))
     = (32, None, \<lparr>inbox = [], wscript = [], outbox = [replicate 32 18]\<rparr>)"
    by (simp add: conn_Write_def toy_def)
  have "Dial toy (\<lambda>addr. Inr \<lparr>inbox = [], wscript = [], outbox = []\<rparr>) (replicate 32 2) ''localhost:8080''
     = (Ret (Inr (NewClient
          (NewReader \<lparr>PublicKey = Some (replicate 32 18), PeersPublicKey = Some (replicate 32 0),
                       privateKey = Some (replicate 32 2)\<rparr>)
          (NewWriter \<lparr>PublicKey = Some (replicate 32 18), PeersPublicKey = Some (replicate 32 0),
                       privateKey = Some (replicate 32 2)\<rparr>),
          \<lparr>inbox = [], wscript = [], outbox = [replicate 32 18]\<rparr>)), [])"
    using Dial_established [OF _ _ rd wr, of "\<lambda>addr. Inr \<lparr>inbox = [], wscript = [], outbox = []\<rparr>" "''localhost:8080''"]
    by (simp add: toy_def)
  with rd show ?thesis by simp
qed


text \<open>
  Claim C5, as amended. The claim says each side reads exactly 32 bytes in a loop. There
  is no loop in either role: when the key exchange succeeds, the peer key is taken from
  one read into a zeroed 32-byte buffer, as the \<open>n\<close> bytes that read returned followed by
  \<open>32 - n\<close> zero bytes, and the stream is left as that one read (and, in \<open>Dial\<close>, the
  key write after it) left it.
\<close>

theorem RECV_KEY_is_one_read:
  "(32 \<le> length r \<and>
    conn_Write client (scalarBaseMult c (take 32 r)) = (nw, None, cnw) \<and>
    conn_Read cnw (replicate 32 0) = (n, None, key, cnr)
    \<longrightarrow> handle_handshake c r client =
          (Ret (Inr (NewServer
             (NewReader \<lparr>PublicKey = Some (scalarBaseMult c (take 32 r)),
                          PeersPublicKey = Some (take (nat n) key @ replicate (32 - nat n) 0),
                          privateKey = Some (take 32 r)\<rparr>)
             (NewWriter \<lparr>PublicKey = Some (scalarBaseMult c (take 32 r)),
                          PeersPublicKey = Some (take (nat n) key @ replicate (32 - nat n) 0),
                          privateKey = Some (take 32 r)\<rparr>))), drop 32 r, cnr)) \<and>
   (32 \<le> length r \<and> net_Dial addr = Inr cn \<and>
    conn_Read cn (replicate 32 0) = (m, None, dkey, dcnr) \<and>
    conn_Write dcnr (scalarBaseMult c (take 32 r)) = (mw, None, dcnw)
    \<longrightarrow> Dial c net_Dial r addr =
          (Ret (Inr (NewClient
             (NewReader \<lparr>PublicKey = Some (scalarBaseMult c (take 32 r)),
                          PeersPublicKey = Some (take (nat m) dkey @ replicate (32 - nat m) 0),
                          privateKey = Some (take 32 r)\<rparr>)
             (NewWriter \<lparr>PublicKey = Some (scalarBaseMult c (take 32 r)),
                          PeersPublicKey = Some (take (nat m) dkey @ replicate (32 - nat m) 0),
                          privateKey = Some (take 32 r)\<rparr>), dcnw)), drop 32 r))"
  by (auto intro: handle_handshake_ok Dial_established)

theorem RECV_KEY_is_one_read_witness:
  "handle_handshake toy (replicate 32 3)
     \<lparr>inbox = [(replicate 32 18, None), ([1, 2, 3], None)], wscript = [], outbox = []\<rparr>
     = (Ret (Inr (NewServer
          (NewReader \<lparr>PublicKey = Some (replicate 32 27), PeersPublicKey = Some (replicate 32 18),
                       privateKey = Some (replicate 32 3)\<rparr>)
          (NewWriter \<lparr>PublicKey = Some (replicate 32 27), PeersPublicKey = Some (replicate 32 18),
                       privateKey = Some (replicate 32 3)\<rparr>))), [],
        \<lparr>inbox = [([1, 2, 3], None)], wscript = [], outbox = [replicate 32 27]\<rparr>) \<and>
   Dial toy (\<lambda>addr. Inr \<lparr>inbox = [(replicate 32 27, None), ([1, 2, 3], None)], wscript = [], outbox = []\<rparr>)
       (replicate 32 2) ''localhost:8080''
     = (Ret (Inr (NewClient
          (NewReader \<lparr>PublicKey = Some (replicate 32 18), PeersPublicKey = Some (replicate 32 27),
                       privateKey = Some (replicate 32 2)\<rparr>)
          (NewWriter \<lparr>PublicKey = Some (replicate 32 18), PeersPublicKey = Some (replicate 32 27),
                       privateKey = Some (replicate 32 2)\<rparr>),
          \<lparr>inbox = [([1, 2, 3], None)], wscript = [], outbox = [replicate 32 18]\<rparr>)), [])"
proof -
  have hw: "conn_Write \<lparr>inbox = [(replicate 32 18, None), ([1, 2, 3], None)], wscript = [], outbox = []\<rparr>
        (scalarBaseMult toy (take 32 (replicate 32 3)))
      = (32, None, \<lparr>inbox = [(replicate 32 18, None), ([1, 2, 3], None)], wscript = [],
                     outbox = [replicate 32 27]\<rparr>)"
    by (simp add: conn_Write_def toy_def)
  have hr: "conn_Read \<lparr>inbox = [(replicate 32 18, None), ([1, 2, 3], None)], wscript = [],
                     outbox = [replicate 32 27]\<rparr> (replicate 32 0)
      = (32, None, replicate 32 18, \<lparr>inbox = [([1, 2, 3], None)], wscript = [], outbox = [replicate 32 27]\<rparr>)"
    by (simp add: conn_Read_def)
  have dr: "conn_Read \<lparr>inbox = [(replicate 32 27, None), ([1, 2, 3], None)], wscript = [], outbox = []\<rparr>
        (replicate 32 0)
      = (32, None, replicate 32 27, \<lparr>inbox = [([1, 2, 3], None)], wscript = [], outbox = []\<rparr>)"
    by (simp add: conn_Read_def)
  have dw: "conn_Write \<lparr>inbox = [([1, 2, 3], None)], wscript = [], outbox = []\<rparr>
        (scalarBaseMult toy (take 32 (replicate 32 2)))
      = (32, None, \<lparr>inbox = [([1, 2, 3], None)], wscript = [], outbox = [replicate 32 18]\<rparr>)"
    by (simp add: conn_Write_def toy_def)
  have h: "handle_handshake toy (replicate 32 3)
     \<lparr>inbox = [(replicate 32 18, None), ([1, 2, 3], None)], wscript = [], outbox = []\<rparr>
     = (Ret (Inr (NewServer
          (NewReader \<lparr>PublicKey = Some (replicate 32 27), PeersPublicKey = Some (replicate 32 18),
                       privateKey = Some (replicate 32 3)\<rparr>)
          (NewWriter \<lparr>PublicKey = Some (replicate 32 27), PeersPublicKey = Some (replicate 32 18),
                       privateKey = Some (replicate 32 3)\<rparr>))), [],
        \<lparr>inbox = [([1, 2, 3], None)], wscript = [], outbox = [replicate 32 27]\<rparr>)"
    using RECV_KEY_is_one_read [THEN conjunct1, rule_format, OF conjI [OF _ conjI [OF hw hr]]]
    by (simp add: toy_def)
  have d: "Dial toy (\<lambda>addr. Inr \<lparr>inbox = [(replicate 32 27, None), ([1, 2, 3], None)], wscript = [], outbox = []\<rparr>)
       (replicate 32 2) ''localhost:8080''
     = (Ret (Inr (NewClient
          (NewReader \<lparr>PublicKey = Some (replicate 32 18), PeersPublicKey = Some (replicate 32 27),
                       privateKey = Some (replicate 32 2)\<rparr>)
          (NewWriter \<lparr>PublicKey = Some (replicate 32 18), PeersPublicKey = Some (replicate 32 27),
                       privateKey = Some (replicate 32 2)\<rparr>),
          \<lparr>inbox = [([1, 2, 3], None)], wscript = [], outbox = [replicate 32 18]\<rparr>)), [])"
    using RECV_KEY_is_one_read [THEN conjunct2, rule_format,
        OF conjI [OF _ conjI [OF _ conjI [OF dr dw]]],
        of "\<lambda>addr. Inr \<lparr>inbox = [(replicate 32 27, None), ([1, 2, 3], None)], wscript = [], outbox = []\<rparr>"
           "''localhost:8080''"]
    by (simp add: toy_def)
  from h d show ?thesis by blast
qed

text \<open>
  Claim C5 as stated fails: when the peer's 32-byte key arrives in two chunks of 16
  bytes, both roles go on with a peer key made of the first 16 bytes and 16 zero bytes,
  and the second chunk is still unread in the stream.
\<close>

theorem RECV_KEY_reads_32_bytes_counterexample:
  "handle_handshake toy (replicate 32 3)
     \<lparr>inbox = [(replicate 16 18, None), (replicate 16 18, None)], wscript = [], outbox = []\<rparr>
     = (Ret (Inr (NewServer
          (NewReader \<lparr>PublicKey = Some (replicate 32 27),
                       PeersPublicKey = Some (replicate 16 18 @ replicate 16 0),
                       privateKey = Some (replicate 32 3)\<rparr>)
          (NewWriter \<lparr>PublicKey = Some (replicate 32 27),
                       PeersPublicKey = Some (replicate 16 18 @ replicate 16 0),
                       privateKey = Some (replicate 32 3)\<rparr>))), [],
        \<lparr>inbox = [(replicate 16 18, None)], wscript = [], outbox = [replicate 32 27]\<rparr>) \<and>
   Dial toy (\<lambda>addr. Inr \<lparr>inbox = [(replicate 16 27, None), (replicate 16 27, None)], wscript = [], outbox = []\<rparr>)
       (replicate 32 2) ''localhost:8080''
     = (Ret (Inr (NewClient
          (NewReader \<lparr>PublicKey = Some (replicate 32 18),
                       PeersPublicKey = Some (replicate 16 27 @ replicate 16 0),
                       privateKey = Some (replicate 32 2)\<rparr>)
          (NewWriter \<lparr>PublicKey = Some (replicate 32 18),
                       PeersPublicKey = Some (replicate 16 27 @ replicate 16 0),
                       privateKey = Some (replicate 32 2)\<rparr>),
          \<lparr>inbox = [(replicate 16 27, None)], wscript = [], outbox = [replicate 32 18]\<rparr>)), []) \<and>
   replicate 16 18 @ replicate 16 0 \<noteq> replicate 32 (18 :: byte) \<and>
   replicate 16 27 @ replicate 16 0 \<noteq> replicate 32 (27 :: byte)"
proof -
  have ne: "replicate 16 18 @ replicate 16 0 \<noteq> replicate 32 (18 :: byte)"
    "replicate 16 27 @ replicate 16 0 \<noteq> replicate 32 (27 :: byte)"
    by code_simp+
  have hw: "conn_Write \<lparr>inbox = [(replicate 16 18, None), (replicate 16 18, None)], wscript = [], outbox = []\<rparr>
        (scalarBaseMult toy (take 32 (replicate 32 3)))
      = (32, None, \<lparr>inbox = [(replicate 16 18, None), (replicate 16 18, None)], wscript = [],
                     outbox = [replicate 32 27]\<rparr>)"
    by (simp add: conn_Write_def toy_def)
  have hr: "conn_Read \<lparr>inbox = [(replicate 16 18, None), (replicate 16 18, None)], wscript = [],
                     outbox = [replicate 32 27]\<rparr> (replicate 32 0)
      = (16, None, replicate 16 18 @ replicate 16 0,
         \<lparr>inbox = [(replicate 16 18, None)], wscript = [], outbox = [replicate 32 27]\<rparr>)"
    by (simp add: conn_Read_def)
  have dr: "conn_Read \<lparr>inbox = [(replicate 16 27, None), (replicate 16 27, None)], wscript = [], outbox = []\<rparr>
        (replicate 32 0)
      = (16, None, replicate 16 27 @ replicate 16 0,
         \<lparr>inbox = [(replicate 16 27, None)], wscript = [], outbox = []\<rparr>)"
    by (simp add: conn_Read_def)
  have dw: "conn_Write \<lparr>inbox = [(replicate 16 27, None)], wscript = [], outbox = []\<rparr>
        (scalarBaseMult toy (take 32 (replicate 32 2)))
      = (32, None, \<lparr>inbox = [(replicate 16 27, None)], wscript = [], outbox = [replicate 32 18]\<rparr>)"
    by (simp add: conn_Write_def toy_def)
  show ?thesis
    using handle_handshake_ok [OF _ hw hr]
      Dial_established [OF _ _ dr dw,
        of "\<lambda>addr. Inr \<lparr>inbox = [(replicate 16 27, None), (replicate 16 27, None)], wscript = [], outbox = []\<rparr>"
           "''localhost:8080''"] ne
    by (simp add: toy_def)
qed

section \<open>The echo loop and its buffer\<close>

lemma conn_Read_long_chunk:
  "inbox cn = (d, e) # rest \<Longrightarrow> length p < length d \<Longrightarrow>
   conn_Read cn p = (int (length p), None, take (length p) d, cn\<lparr>inbox := (drop (length p) d, e) # rest\<rparr>)"
  by (simp add: conn_Read_def)

text \<open>
  Claim C10. The echo loop of \<open>handle\<close> reads into a buffer of \<open>MAX_BUFFER\<close> = 1024
  bytes. A message of more than 984 bytes has a frame of more than 1024 bytes; when such
  a frame arrives, the read returns its first 1024 bytes only and \<open>Decrypt\<close> is given the
  nonce and the first 1000 bytes of the ciphertext. The library refuses a truncated
  ciphertext (the hypothesis on \<open>secretbox_Open\<close>), so the loop ends there: it prints the
  decryption error, draws no entropy and writes nothing back; the rest of the frame is
  still in the stream.
\<close>

theorem handle_loop_truncates_long_frame:
  assumes "nacl_contract c"
    and "984 < length m" and "length nonce = 24"
    and "inbox cn = (nonce @ secretbox_Seal c m nonce k, e) # rest"
    and "PeersPublicKey (rd_bx (sv_rd s)) = Some pk" and "privateKey (rd_bx (sv_rd s)) = Some sk"
    and "secretbox_Open c (take 1000 (secretbox_Seal c m nonce k)) nonce (Precompute c pk sk) = None"
  shows "MAX_BUFFER < length (nonce @ secretbox_Seal c m nonce k) \<and>
         Reader_Read c (sv_rd s) cn (replicate MAX_BUFFER 0) =
           Ret (int MAX_BUFFER, Some DecryptError,
                take MAX_BUFFER (nonce @ secretbox_Seal c m nonce k),
                cn\<lparr>inbox := (drop MAX_BUFFER (nonce @ secretbox_Seal c m nonce k), e) # rest\<rparr>) \<and>
         handle_loop c s r cn =
           Ret ([DecryptError], r,
                cn\<lparr>inbox := (drop MAX_BUFFER (nonce @ secretbox_Seal c m nonce k), e) # rest\<rparr>)"
proof -
  let ?f = "nonce @ secretbox_Seal c m nonce k"
  let ?cn = "cn\<lparr>inbox := (drop 1024 ?f, e) # rest\<rparr>"
  from assms(1) have "length (secretbox_Seal c m nonce k) = length m + 16"
    by (simp add: nacl_contract_def)
  with assms(2,3) have long: "1024 < length ?f" by simp
  then have rd: "conn_Read cn (replicate 1024 0) = (1024, None, take 1024 ?f, ?cn)"
    using conn_Read_long_chunk [OF assms(4), of "replicate 1024 0"] by simp
  have "Reader_Read c (sv_rd s) cn (replicate 1024 0) = Ret (1024, Some DecryptError, take 1024 ?f, ?cn)"
  proof (rule Reader_Read_reject [OF rd assms(5,6)])
    show "(24 :: int) \<le> 1024" by simp
    show "secretbox_Open c (drop 24 (take (nat 1024) (take 1024 ?f))) (take 24 (take 1024 ?f))
            (Precompute c pk sk) = None"
      using assms(3,7) by (simp add: drop_take)
  qed
  then have rr: "Reader_Read c (sv_rd s) cn (replicate MAX_BUFFER 0) =
      Ret (int MAX_BUFFER, Some DecryptError, take MAX_BUFFER ?f, ?cn)"
    by (simp add: MAX_BUFFER_def)
  have "handle_loop c s r cn = Ret ([DecryptError], r, ?cn)"
    by (subst handle_loop.simps) (simp add: rr)
  with long rr show ?thesis by (simp add: MAX_BUFFER_def)
qed

lemma toy_truncated:
  "toy_Open (take 1000 (toy_Seal (replicate 985 0) (replicate 24 7) (replicate 32 54)))
     (replicate 24 7) (replicate 32 54) = None"
  by (simp add: toy_Open_def toy_Seal_def toy_tag_def sum_list_replicate)


theorem handle_loop_truncates_long_frame_witness:
  "handle_loop toy
     (NewServer
        (NewReader \<lparr>PublicKey = Some (replicate 32 27), PeersPublicKey = Some (replicate 32 18),
                     privateKey = Some (replicate 32 3)\<rparr>)
        (NewWriter \<lparr>PublicKey = Some (replicate 32 27), PeersPublicKey = Some (replicate 32 18),
                     privateKey = Some (replicate 32 3)\<rparr>))
     (replicate 24 9)
     \<lparr>inbox = [(replicate 24 7 @ toy_Seal (replicate 985 0) (replicate 24 7) (replicate 32 54), None)],
        wscript = [], outbox = [replicate 32 27]\<rparr>
   = Ret ([DecryptError], replicate 24 9,
       \<lparr>inbox = [(drop MAX_BUFFER
                     (replicate 24 7 @ toy_Seal (replicate 985 0) (replicate 24 7) (replicate 32 54)), None)],
          wscript = [], outbox = [replicate 32 27]\<rparr>)"
  using handle_loop_truncates_long_frame [OF toy_contract, of "replicate 985 0" "replicate 24 7"
      "\<lparr>inbox = [(replicate 24 7 @ toy_Seal (replicate 985 0) (replicate 24 7) (replicate 32 54), None)],
         wscript = [], outbox = [replicate 32 27]\<rparr>"
      "replicate 32 54" None "[]"
      "NewServer
        (NewReader \<lparr>PublicKey = Some (replicate 32 27), PeersPublicKey = Some (replicate 32 18),
                     privateKey = Some (replicate 32 3)\<rparr>)
        (NewWriter \<lparr>PublicKey = Some (replicate 32 27), PeersPublicKey = Some (replicate 32 18),
                     privateKey = Some (replicate 32 3)\<rparr>)"
      "replicate 32 18" "replicate 32 3" "replicate 24 9"]
    toy_truncated
  by (simp add: toy_def NewServer_def NewReader_def)

text \<open>
  For comparison, a frame that fits is echoed: the loop decrypts the five bytes of
  \<open>hello\<close>, seals them again under a fresh nonce, writes the new frame and returns
  silently at end of stream.
\<close>

lemma handle_loop_echoes_hello:
  "handle_loop toy
     (NewServer
        (NewReader \<lparr>PublicKey = Some (replicate 32 27), PeersPublicKey = Some (replicate 32 18),
                     privateKey = Some (replicate 32 3)\<rparr>)
        (NewWriter \<lparr>PublicKey = Some (replicate 32 27), PeersPublicKey = Some (replicate 32 18),
                     privateKey = Some (replicate 32 3)\<rparr>))
     (replicate 24 9)
     \<lparr>inbox = [(replicate 24 7 @ toy_Seal [104, 101, 108, 108, 111] (replicate 24 7) (replicate 32 54), None)],
        wscript = [], outbox = [replicate 32 27]\<rparr>
   = Ret ([], [],
       \<lparr>inbox = [], wscript = [],
          outbox = [replicate 32 27,
                    replicate 24 9 @ toy_Seal [104, 101, 108, 108, 111] (replicate 24 9) (replicate 32 54)]\<rparr>)"
proof -
  let ?bx = "\<lparr>PublicKey = Some (replicate 32 27), PeersPublicKey = Some (replicate 32 18),
                     privateKey = Some (replicate 32 3)\<rparr>"
  let ?m = "[104, 101, 108, 108, 111] :: bytes"
  let ?f = "replicate 24 7 @ toy_Seal ?m (replicate 24 7) (replicate 32 54)"
  let ?g = "replicate 24 9 @ toy_Seal ?m (replicate 24 9) (replicate 32 54)"
  let ?cn = "\<lparr>inbox = [(?f, None)], wscript = [], outbox = [replicate 32 27]\<rparr>"
  let ?cn1 = "\<lparr>inbox = [], wscript = [], outbox = [replicate 32 27]\<rparr>"
  let ?cn2 = "\<lparr>inbox = [], wscript = [], outbox = [replicate 32 27, ?g]\<rparr>"
  have lf: "length ?f = 45" by (simp add: toy_Seal_def toy_tag_def)
  have rd: "conn_Read ?cn (replicate MAX_BUFFER 0) = (45, None, ?f @ replicate 979 0, ?cn1)"
    using lf by (simp add: conn_Read_def MAX_BUFFER_def)
  have dec: "Decrypt toy ?bx ?f = Ret (Inr ?m)"
    by (simp add: Decrypt_frame toy_def toy_roundtrip)
  have r1: "Reader_Read toy (NewReader ?bx) ?cn (replicate MAX_BUFFER 0)
      = Ret (5, None, ?m @ drop 5 (?f @ replicate 979 0), ?cn1)"
    using lf by (simp add: Reader_Read_def rd NewReader_def dec go_copy_def)
  have w1: "Writer_Write toy (NewWriter ?bx) (replicate 24 9) ?cn1 ?m = Ret (45, None, [], ?cn2)"
    by (simp add: Writer_Write_def NewWriter_def Encrypt_frame conn_Write_def toy_def toy_Seal_def toy_tag_def)
  have r2: "Reader_Read toy (NewReader ?bx) ?cn2 (replicate MAX_BUFFER 0)
      = Ret (0, Some EOF, replicate MAX_BUFFER 0, ?cn2)"
    by (simp add: Reader_Read_def conn_Read_def)
  have sv: "sv_rd (NewServer (NewReader ?bx) (NewWriter ?bx)) = NewReader ?bx"
    "sv_wr (NewServer (NewReader ?bx) (NewWriter ?bx)) = NewWriter ?bx"
    by (simp_all add: NewServer_def)
  have "handle_loop toy (NewServer (NewReader ?bx) (NewWriter ?bx)) [] ?cn2 = Ret ([], [], ?cn2)"
    by (subst handle_loop.simps) (simp add: sv r2)
  then show ?thesis
    by (subst handle_loop.simps) (simp add: sv r1 w1)
qed

end
